theory Spec2Isabelle
  imports Complex_Main "HOL-Library.Log_Nat"
begin

section \<open>Python values as decoded from the provider's JSON\<close>

text \<open>
  The value \<open>response.json()\<close> returns: \<open>None\<close>, a bool, an int, a float, a str, a list or
  a dict with string keys. A dict is an association list read with \<open>map_of\<close> (the decoded
  dict has one value per key). Floats are idealised as reals; only their truth value
  (non-zero) is ever used.
\<close>

datatype json =
    JNull
  | JBool bool
  | JInt int
  | JFloat real
  | JStr string
  | JList "json list"
  | JDict "(string \<times> json) list"

text \<open>The exceptions the two sensors can meet; every one of them is an \<open>Exception\<close>.\<close>

datatype exn =
    AttributeError
  | TypeError
  | KeyError
  | IndexError
  | RequestException
  | JSONDecodeError

definition and_then :: "exn + 'a \<Rightarrow> ('a \<Rightarrow> exn + 'b) \<Rightarrow> exn + 'b" where
  "and_then r f = (case r of Inl e \<Rightarrow> Inl e | Inr x \<Rightarrow> f x)"

text \<open>\<open>v.get(k, d)\<close>: only a dict has the method; on anything else the call raises.\<close>

definition py_get :: "json \<Rightarrow> string \<Rightarrow> json \<Rightarrow> exn + json" where
  "py_get v k d =
     (case v of
        JDict kvs \<Rightarrow> Inr (case map_of kvs k of Some x \<Rightarrow> x | None \<Rightarrow> d)
      | _ \<Rightarrow> Inl AttributeError)"

text \<open>Python's truth value of a decoded value (\<open>if x:\<close>, \<open>x or y\<close>).\<close>

fun truthy :: "json \<Rightarrow> bool" where
  "truthy JNull = False"
| "truthy (JBool b) = b"
| "truthy (JInt i) = (i \<noteq> 0)"
| "truthy (JFloat r) = (r \<noteq> 0)"
| "truthy (JStr s) = (s \<noteq> [])"
| "truthy (JList xs) = (xs \<noteq> [])"
| "truthy (JDict kvs) = (kvs \<noteq> [])"

definition py_or :: "json \<Rightarrow> json \<Rightarrow> json" where
  "py_or a b = (if truthy a then a else b)"

text \<open>\<open>for visit in visits\<close>: a list yields its elements, a dict its keys, a str its
  characters; the other decoded values are not iterable.\<close>

definition py_iter :: "json \<Rightarrow> exn + json list" where
  "py_iter v =
     (case v of
        JList xs \<Rightarrow> Inr xs
      | JDict kvs \<Rightarrow> Inr (map (\<lambda>kv. JStr (fst kv)) kvs)
      | JStr s \<Rightarrow> Inr (map (\<lambda>c. JStr [c]) s)
      | _ \<Rightarrow> Inl TypeError)"

text \<open>\<open>delivery[0]\<close>: the head of a list, the first character of a str; a dict decoded from
  JSON has string keys only, so the key \<open>0\<close> is missing; the rest is not subscriptable.\<close>

definition py_index0 :: "json \<Rightarrow> exn + json" where
  "py_index0 v =
     (case v of
        JList xs \<Rightarrow> (case xs of [] \<Rightarrow> Inl IndexError | x # _ \<Rightarrow> Inr x)
      | JStr s \<Rightarrow> (case s of [] \<Rightarrow> Inl IndexError | c # _ \<Rightarrow> Inr (JStr [c]))
      | JDict kvs \<Rightarrow> Inl KeyError
      | _ \<Rightarrow> Inl TypeError)"


section \<open>Datetimes\<close>

text \<open>
  A \<open>datetime\<close> object: the calendar fields and \<open>tzinfo\<close>, the latter as the fixed UTC
  offset in seconds (\<open>None\<close> for a naive datetime).
\<close>

record datetime =
  year :: nat
  month :: nat
  day :: nat
  hour :: nat
  minute :: nat
  second :: nat
  microsecond :: nat
  tzinfo :: "int option"

definition is_leap :: "nat \<Rightarrow> bool" where
  "is_leap y = (y mod 4 = 0 \<and> (y mod 100 \<noteq> 0 \<or> y mod 400 = 0))"

definition days_in_month :: "nat \<Rightarrow> nat \<Rightarrow> nat" where
  "days_in_month y m =
     (if m = 2 then (if is_leap y then 29 else 28)
      else if m = 4 \<or> m = 6 \<or> m = 9 \<or> m = 11 then 30 else 31)"

definition valid_datetime :: "datetime \<Rightarrow> bool" where
  "valid_datetime d =
     (1 \<le> year d \<and> year d \<le> 9999 \<and> 1 \<le> month d \<and> month d \<le> 12 \<and>
      1 \<le> day d \<and> day d \<le> days_in_month (year d) (month d) \<and>
      hour d < 24 \<and> minute d < 60 \<and> second d < 60 \<and> microsecond d < 1000000)"

subsection \<open>Decimal digits\<close>

definition digit_char :: "nat \<Rightarrow> char" where
  "digit_char n = ''0123456789'' ! n"

definition digit_val :: "char \<Rightarrow> nat option" where
  "digit_val c =
     map_of [(CHR ''0'', 0), (CHR ''1'', 1), (CHR ''2'', 2), (CHR ''3'', 3), (CHR ''4'', 4),
             (CHR ''5'', 5), (CHR ''6'', 6), (CHR ''7'', 7), (CHR ''8'', 8), (CHR ''9'', 9)] c"

definition pad2 :: "nat \<Rightarrow> string" where
  "pad2 n = [digit_char (n div 10 mod 10), digit_char (n mod 10)]"

text \<open>\<open>str(n)\<close> for a natural number and for an integer, as an f-string renders it.\<close>

fun str_nat :: "nat \<Rightarrow> string" where
  "str_nat n = (if n < 10 then [digit_char n] else str_nat (n div 10) @ [digit_char (n mod 10)])"

definition str_int :: "int \<Rightarrow> string" where
  "str_int i = (if i < 0 then CHR ''-'' # str_nat (nat (- i)) else str_nat (nat i))"

subsection \<open>\<open>strftime("%B %d, %Y at %I:%M %p")\<close>\<close>

definition month_names :: "string list" where
  "month_names = [''January'', ''February'', ''March'', ''April'', ''May'', ''June'',
                  ''July'', ''August'', ''September'', ''October'', ''November'', ''December'']"

definition hour12 :: "nat \<Rightarrow> nat" where
  "hour12 h = (if h mod 12 = 0 then 12 else h mod 12)"

definition am_pm :: "nat \<Rightarrow> string" where
  "am_pm h = (if h < 12 then ''AM'' else ''PM'')"

text \<open>
  The one pattern both sensors use, in the C locale: full English month name, two-digit
  day, the year, two-digit hour of the 12-hour clock, two-digit minute, AM or PM. The C
  library writes the year without padding, "999" for the year 999. Seconds,
  microseconds and the UTC offset are not written.
\<close>

definition strftime :: "datetime \<Rightarrow> string" where
  "strftime d =
     month_names ! (month d - 1) @ '' '' @ pad2 (day d) @ '', '' @ str_nat (year d) @ '' at '' @
     pad2 (hour12 (hour d)) @ '':'' @ pad2 (minute d) @ '' '' @ am_pm (hour d)"


section \<open>The arrival normalizer (the body of the loop over the visits)\<close>

text \<open>
  The two variants differ in the parser only (\<open>datetime.fromisoformat\<close> against
  \<open>dateutil.parser.parse\<close>), which is a parameter: \<open>None\<close> stands for the parser raising.
  A raw value is parsed only when it is truthy; a parser given a value that is not a str
  raises, and the exception is caught on the spot.
\<close>

definition parse_time :: "(string \<Rightarrow> datetime option) \<Rightarrow> json \<Rightarrow> datetime option" where
  "parse_time parser raw =
     (if truthy raw then (case raw of JStr s \<Rightarrow> parser s | _ \<Rightarrow> None) else None)"

definition format_time :: "datetime option \<Rightarrow> string" where
  "format_time dt = (case dt of Some d \<Rightarrow> strftime d | None \<Rightarrow> ''Unavailable'')"

text \<open>One visit: the arrival dict and the value \<open>expected_dt\<close> is left with.\<close>

definition normalize_visit ::
  "(string \<Rightarrow> datetime option) \<Rightarrow> json \<Rightarrow> exn + ((string \<times> json) list \<times> datetime option)" where
  "normalize_visit parser visit =
     and_then (py_get visit ''MonitoredVehicleJourney'' (JDict [])) (\<lambda>journey.
     and_then (py_get journey ''MonitoredCall'' (JDict [])) (\<lambda>call.
     and_then (py_get call ''Extensions'' (JDict [])) (\<lambda>extensions.
     and_then (py_get extensions ''Distances'' (JDict [])) (\<lambda>distances.
     and_then (py_get extensions ''Capacities'' (JDict [])) (\<lambda>capacities.
     and_then (py_get call ''AimedArrivalTime'' JNull) (\<lambda>raw_aat.
     and_then (py_get call ''ExpectedArrivalTime'' JNull) (\<lambda>raw_eat.
     let aimed_dt = parse_time parser raw_aat;
         expected_dt = parse_time parser raw_eat;
         aimed_formatted = format_time aimed_dt;
         expected_formatted = format_time expected_dt
     in
     and_then (py_get journey ''PublishedLineName'' JNull) (\<lambda>route.
     and_then (py_get journey ''DestinationName'' JNull) (\<lambda>destination.
     and_then (py_get journey ''VehicleLocation'' JNull) (\<lambda>location.
     and_then (py_get journey ''ProgressRate'' JNull) (\<lambda>progress.
     and_then (py_get distances ''PresentableDistance'' JNull) (\<lambda>presentable.
     and_then (py_get distances ''DistanceFromCall'' JNull) (\<lambda>distance_m.
     and_then (py_get capacities ''EstimatedPassengerCount'' JNull) (\<lambda>pcount.
     and_then (py_get capacities ''EstimatedPassengerCapacity'' JNull) (\<lambda>pcapacity.
     and_then (py_get call ''StopPointName'' JNull) (\<lambda>stop_name.
     Inr ([(''Route'', route),
           (''Destination'', destination),
           (''Current Vehicle Location'', location),
           (''Progress Rate'', progress),
           (''Aimed Arrival Time'', JStr aimed_formatted),
           (''Estimated Arrival Time'', JStr expected_formatted),
           (''Distance'', py_or presentable (JStr ''Unavailable'')),
           (''Distance (m)'', distance_m),
           (''Passenger Count'', pcount),
           (''Passenger Capacity'', pcapacity),
           (''Stop Name'', stop_name)],
          expected_dt)))))))))))))))))"

definition arrival_keys :: "string list" where
  "arrival_keys =
     [''Route'', ''Destination'', ''Current Vehicle Location'', ''Progress Rate'',
      ''Aimed Arrival Time'', ''Estimated Arrival Time'', ''Distance'', ''Distance (m)'',
      ''Passenger Count'', ''Passenger Capacity'', ''Stop Name'']"

text \<open>\<open>d.get(k)\<close> on a dict the program built itself.\<close>

definition dict_get :: "(string \<times> json) list \<Rightarrow> string \<Rightarrow> json" where
  "dict_get kvs k = (case map_of kvs k of Some x \<Rightarrow> x | None \<Rightarrow> JNull)"


section \<open>Time arithmetic\<close>

text \<open>
  \<open>a - b\<close> on datetimes, as the library computes it: the difference of the proleptic
  Gregorian ordinals, of the seconds of the day and of the microseconds. A \<open>timedelta\<close> is
  its count of microseconds. With equal \<open>tzinfo\<close> the offsets are ignored; a naive and an
  aware datetime do not subtract.
\<close>

definition days_before_year :: "nat \<Rightarrow> int" where
  "days_before_year y = (let y1 = int y - 1 in y1 * 365 + y1 div 4 - y1 div 100 + y1 div 400)"

definition days_before_month :: "nat \<Rightarrow> nat \<Rightarrow> int" where
  "days_before_month y m =
     [0, 31, 59, 90, 120, 151, 181, 212, 243, 273, 304, 334] ! (m - 1) +
     (if m > 2 \<and> is_leap y then 1 else 0)"

definition toordinal :: "datetime \<Rightarrow> int" where
  "toordinal d = days_before_year (year d) + days_before_month (year d) (month d) + int (day d)"

definition seconds_of_day :: "datetime \<Rightarrow> int" where
  "seconds_of_day d = int (second d) + int (minute d) * 60 + int (hour d) * 3600"

definition datetime_sub :: "datetime \<Rightarrow> datetime \<Rightarrow> exn + int" where
  "datetime_sub a b =
     (let base = ((toordinal a - toordinal b) * 86400 + (seconds_of_day a - seconds_of_day b))
                   * 1000000 + (int (microsecond a) - int (microsecond b))
      in if tzinfo a = tzinfo b then Inr base
         else (case (tzinfo a, tzinfo b) of
                 (Some myoff, Some otoff) \<Rightarrow> Inr (base + (otoff - myoff) * 1000000)
               | _ \<Rightarrow> Inl TypeError))"

text \<open>
  \<open>datetime.now(tz)\<close>: the clock gives the wall time of the moment in the zone asked for
  (the local zone for \<open>None\<close>); the result carries that \<open>tzinfo\<close>.
\<close>

definition datetime_now :: "(int option \<Rightarrow> datetime) \<Rightarrow> int option \<Rightarrow> datetime" where
  "datetime_now clock tz = (clock tz)\<lparr>tzinfo := tz\<rparr>"

text \<open>
  \<open>delta.total_seconds()\<close> is a float: the microseconds divided by \<open>10**6\<close>, which the
  interpreter rounds correctly to the nearest binary64 value, ties to even. \<open>binade n\<close> is
  the exponent \<open>e\<close> with \<open>2^e \<le> n / 10^6 < 2^(e+1)\<close> for a positive count \<open>n\<close> of microseconds
  (a million lies between \<open>2^19\<close> and \<open>2^20\<close>); the value keeps 53 significant bits, so it is a
  multiple of \<open>2^(e-52)\<close>. Every timedelta is far inside the range of the normal numbers.
\<close>

definition binade :: "int \<Rightarrow> int" where
  "binade n = (let k = bitlen n - 1
               in if n * 2 ^ 19 < 1000000 * 2 ^ nat k then k - 20 else k - 19)"

text \<open>The integer nearest to \<open>a / b\<close> for a positive \<open>b\<close>, the even one of two equally near.\<close>

definition round_half_even :: "int \<Rightarrow> int \<Rightarrow> int" where
  "round_half_even a b =
     (let q = a div b; r = a mod b
      in if 2 * r < b \<or> (2 * r = b \<and> even q) then q else q + 1)"

definition total_seconds :: "int \<Rightarrow> real" where
  "total_seconds us =
     (if us = 0 then 0
      else let e = binade \<bar>us\<bar> in
        if e \<le> 52
        then real_of_int (round_half_even (us * 2 ^ nat (52 - e)) 1000000) / 2 ^ nat (52 - e)
        else real_of_int (round_half_even us (1000000 * 2 ^ nat (e - 52)) * 2 ^ nat (e - 52)))"

text \<open>
  \<open>int(x // 60)\<close> on a float \<open>x\<close>: the interpreter takes \<open>fmod(x, 60)\<close>, which is exact,
  subtracts it and divides by 60; the difference is a whole multiple of 60 that the format
  holds, so the result is the floor of the quotient of the value of \<open>x\<close> by 60.
\<close>

definition floordiv_60 :: "real \<Rightarrow> int" where
  "floordiv_60 x = \<lfloor>x / 60\<rfloor>"

text \<open>
  The countdown both variants compute from a datetime \<open>expected_dt\<close>, with
  \<open>minutes = int(delta.total_seconds() // 60)\<close>.
\<close>

definition eta_countdown :: "(int option \<Rightarrow> datetime) \<Rightarrow> datetime \<Rightarrow> exn + string" where
  "eta_countdown clock expected_dt =
     (let now_dt = datetime_now clock (tzinfo expected_dt) in
      and_then (datetime_sub expected_dt now_dt) (\<lambda>delta.
      let minutes = floordiv_60 (total_seconds delta) in
      Inr (if minutes \<ge> 0 then ''in '' @ str_int minutes @ '' minutes'' else ''Departed'')))"

text \<open>Single-target variant: \<open>eta_in_minutes = "N/A"\<close>, replaced when \<open>expected_dt\<close> is set.\<close>

definition eta_in_minutes :: "(int option \<Rightarrow> datetime) \<Rightarrow> datetime option \<Rightarrow> exn + string" where
  "eta_in_minutes clock expected_dt =
     (case expected_dt of None \<Rightarrow> Inr ''N/A'' | Some e \<Rightarrow> eta_countdown clock e)"


section \<open>\<open>strptime(s, "%B %d, %Y at %I:%M %p")\<close>\<close>

text \<open>
  The library's parser for the same pattern, on the strings the program gives it: the
  value of "Estimated Arrival Time", which \<open>strftime\<close> wrote. The library also accepts
  other spellings of the same fields (letter case, one-digit numbers, runs of blanks);
  this parser accepts the written form only. Seconds and microseconds default to zero, and
  the result is naive. \<open>None\<close> stands for \<open>ValueError\<close>.
\<close>

fun strip_prefix :: "string \<Rightarrow> string \<Rightarrow> string option" where
  "strip_prefix [] s = Some s"
| "strip_prefix (p # ps) [] = None"
| "strip_prefix (p # ps) (c # cs) = (if p = c then strip_prefix ps cs else None)"

fun parse_month :: "nat \<Rightarrow> string list \<Rightarrow> string \<Rightarrow> (nat \<times> string) option" where
  "parse_month i [] s = None"
| "parse_month i (n # ns) s =
     (case strip_prefix n s of Some rest \<Rightarrow> Some (i, rest) | None \<Rightarrow> parse_month (Suc i) ns s)"

definition parse_digits2 :: "string \<Rightarrow> (nat \<times> string) option" where
  "parse_digits2 s =
     (case s of
        a # b # rest \<Rightarrow>
          (case (digit_val a, digit_val b) of
             (Some x, Some y) \<Rightarrow> Some (10 * x + y, rest)
           | _ \<Rightarrow> None)
      | _ \<Rightarrow> None)"

definition parse_digits4 :: "string \<Rightarrow> (nat \<times> string) option" where
  "parse_digits4 s =
     Option.bind (parse_digits2 s) (\<lambda>(hi, rest).
     Option.bind (parse_digits2 rest) (\<lambda>(lo, rest'). Some (100 * hi + lo, rest')))"

definition parse_am_pm :: "string \<Rightarrow> bool option" where
  "parse_am_pm s = (if s = ''AM'' then Some False else if s = ''PM'' then Some True else None)"

definition hour24 :: "nat \<Rightarrow> bool \<Rightarrow> nat" where
  "hour24 h pm = (if pm then (if h \<noteq> 12 then h + 12 else h) else (if h = 12 then 0 else h))"

definition strptime :: "string \<Rightarrow> datetime option" where
  "strptime s =
     Option.bind (parse_month 1 month_names s) (\<lambda>(mo, s1).
     Option.bind (strip_prefix '' '' s1) (\<lambda>s2.
     Option.bind (parse_digits2 s2) (\<lambda>(dd, s3).
     Option.bind (strip_prefix '', '' s3) (\<lambda>s4.
     Option.bind (parse_digits4 s4) (\<lambda>(yy, s5).
     Option.bind (strip_prefix '' at '' s5) (\<lambda>s6.
     Option.bind (parse_digits2 s6) (\<lambda>(hh, s7).
     Option.bind (strip_prefix '':'' s7) (\<lambda>s8.
     Option.bind (parse_digits2 s8) (\<lambda>(mi, s9).
     Option.bind (strip_prefix '' '' s9) (\<lambda>s10.
     Option.bind (parse_am_pm s10) (\<lambda>pm.
     if 1 \<le> hh \<and> hh \<le> 12 \<and> mi \<le> 59 \<and> 1 \<le> yy \<and> 1 \<le> dd \<and> dd \<le> days_in_month yy mo
     then Some \<lparr>year = yy, month = mo, day = dd, hour = hour24 hh pm, minute = mi,
                second = 0, microsecond = 0, tzinfo = None\<rparr>
     else None)))))))))))"


section \<open>Reading a decoded response (the same text in both variants)\<close>

text \<open>\<open>data.get("Siri", {}).get("ServiceDelivery", {}).get("StopMonitoringDelivery", [])\<close>\<close>

definition read_delivery :: "json \<Rightarrow> exn + json" where
  "read_delivery data =
     and_then (py_get data ''Siri'' (JDict [])) (\<lambda>siri.
     and_then (py_get siri ''ServiceDelivery'' (JDict [])) (\<lambda>service.
     py_get service ''StopMonitoringDelivery'' (JList [])))"

text \<open>The loop over the visits: \<open>arrivals\<close> grows at its end, \<open>expected_dt\<close> is overwritten by
  every pass (before the first pass it is unbound, and it is not read when no pass ran).\<close>

fun visits_loop ::
  "(string \<Rightarrow> datetime option) \<Rightarrow> json list \<Rightarrow> (string \<times> json) list list \<times> datetime option
     \<Rightarrow> exn + ((string \<times> json) list list \<times> datetime option)" where
  "visits_loop parser [] acc = Inr acc"
| "visits_loop parser (visit # visits) acc =
     and_then (normalize_visit parser visit) (\<lambda>(arrival, expected_dt).
     visits_loop parser visits (fst acc @ [arrival], expected_dt))"

text \<open>\<open>visits = delivery[0].get("MonitoredStopVisit", [])\<close> and the loop.\<close>

definition read_visits ::
  "(string \<Rightarrow> datetime option) \<Rightarrow> json
     \<Rightarrow> exn + ((string \<times> json) list list \<times> datetime option)" where
  "read_visits parser delivery =
     and_then (py_index0 delivery) (\<lambda>first.
     and_then (py_get first ''MonitoredStopVisit'' (JList [])) (\<lambda>visits.
     and_then (py_iter visits) (\<lambda>vs.
     visits_loop parser vs ([], None))))"


section \<open>The world outside: HTTP and the clock\<close>

record response =
  status_code :: int
  json_body :: "exn + json"

record env =
  requests_get :: "string \<Rightarrow> exn + response"
  fromisoformat :: "string \<Rightarrow> datetime option"
  dateutil_parse :: "string \<Rightarrow> datetime option"
  clock :: "int option \<Rightarrow> datetime"
  utcnow :: int


section \<open>Single-target variant: \<open>MTABusSensor\<close>\<close>

record MTABusSensor =
  api_key :: string
  operator_ref :: string
  monitoring_ref :: string
  line_ref :: string
  state :: json
  attributes :: "(string \<times> json) list"

definition sensor_url :: "MTABusSensor \<Rightarrow> string" where
  "sensor_url s =
     ''https://bustime.mta.info/api/siri/stop-monitoring.json?'' @
     ''key='' @ api_key s @ ''&OperatorRef='' @ operator_ref s @
     ''&MonitoringRef='' @ monitoring_ref s @ ''&LineRef='' @ line_ref s"

text \<open>Lines 74 to 145 of \<open>update\<close>: the new state and the new attributes, or the exception
  that leaves the \<open>try\<close> block.\<close>

definition process_response :: "env \<Rightarrow> json \<Rightarrow> exn + (json \<times> (string \<times> json) list)" where
  "process_response e data =
     and_then (read_delivery data) (\<lambda>delivery.
     if truthy delivery then
       and_then (read_visits (fromisoformat e) delivery) (\<lambda>(arrivals, expected_dt).
       case arrivals of
         first_arrival # _ \<Rightarrow>
           and_then (eta_in_minutes (clock e) expected_dt) (\<lambda>eta.
           Inr (dict_get first_arrival ''Estimated Arrival Time'',
                [(''Arrivals'', JList (map JDict arrivals)), (''ETA in minutes'', JStr eta)]))
       | [] \<Rightarrow> Inr (JStr ''No arrivals'', [(''Arrivals'', JList (map JDict arrivals))]))
     else Inr (JStr ''No data'', [(''Arrivals'', JList [])]))"

definition update :: "env \<Rightarrow> MTABusSensor \<Rightarrow> MTABusSensor" where
  "update e s =
     (case requests_get e (sensor_url s) of
        Inl ex \<Rightarrow> s\<lparr>state := JStr ''Error''\<rparr>
      | Inr r \<Rightarrow>
          if status_code r \<noteq> 200 then s\<lparr>state := JStr ''Error''\<rparr>
          else (case and_then (json_body r) (process_response e) of
                  Inl ex \<Rightarrow> s\<lparr>state := JStr ''Error''\<rparr>
                | Inr (st, attrs) \<Rightarrow> s\<lparr>state := st, attributes := attrs\<rparr>))"


section \<open>Multi-target variant: \<open>MTAData\<close> and \<open>MTABusStopSensor\<close>\<close>

record departure =
  dep_name :: string
  dep_monitoring_ref :: string
  dep_route :: "string option"

text \<open>\<open>last_update\<close> is the time the throttle keeps for the object, in microseconds.\<close>

record MTAData =
  data_api_key :: string
  data_operator_ref :: string
  departures :: "departure list"
  info :: "string \<rightharpoonup> (string \<times> json) list list"
  last_update :: "int option"

definition MIN_TIME_BETWEEN_UPDATES :: int where
  "MIN_TIME_BETWEEN_UPDATES = 60 * 1000000"

definition departure_url :: "MTAData \<Rightarrow> departure \<Rightarrow> string" where
  "departure_url d dep =
     ''https://bustime.mta.info/api/siri/stop-monitoring.json?'' @
     ''key='' @ data_api_key d @ ''&OperatorRef='' @ data_operator_ref d @
     ''&MonitoringRef='' @ dep_monitoring_ref dep @
     (case dep_route dep of
        Some route \<Rightarrow> if route \<noteq> [] then ''&LineRef='' @ route else []
      | None \<Rightarrow> [])"

text \<open>Lines 63 to 108: the arrivals of a decoded response.\<close>

definition read_arrivals :: "env \<Rightarrow> json \<Rightarrow> exn + (string \<times> json) list list" where
  "read_arrivals e data =
     and_then (read_delivery data) (\<lambda>delivery.
     if truthy delivery then
       and_then (read_visits (dateutil_parse e) delivery) (\<lambda>(arrivals, expected_dt).
       Inr arrivals)
     else Inr [])"

text \<open>One pass of the loop over the departures: what \<open>new_info[dep_name]\<close> is set to.\<close>

definition fetch_departure :: "env \<Rightarrow> MTAData \<Rightarrow> departure \<Rightarrow> (string \<times> json) list list" where
  "fetch_departure e d dep =
     (case requests_get e (departure_url d dep) of
        Inl ex \<Rightarrow> []
      | Inr r \<Rightarrow>
          if status_code r \<noteq> 200 then []
          else (case and_then (json_body r) (read_arrivals e) of
                  Inl ex \<Rightarrow> []
                | Inr arrivals \<Rightarrow> arrivals))"

text \<open>The loop, with the URLs it requested, in order.\<close>

fun fetch_all ::
  "env \<Rightarrow> MTAData \<Rightarrow> departure list
     \<Rightarrow> (string \<rightharpoonup> (string \<times> json) list list) \<times> string list
     \<Rightarrow> (string \<rightharpoonup> (string \<times> json) list list) \<times> string list" where
  "fetch_all e d [] acc = acc"
| "fetch_all e d (dep # deps) acc =
     fetch_all e d deps
       ((fst acc)(dep_name dep \<mapsto> fetch_departure e d dep), snd acc @ [departure_url d dep])"

text \<open>The method \<open>MTAData.update\<close> as written, without its decorator.\<close>

definition MTAData_update_body :: "env \<Rightarrow> MTAData \<Rightarrow> MTAData \<times> string list" where
  "MTAData_update_body e d =
     (let (new_info, requested) = fetch_all e d (departures d) (Map.empty, [])
      in (d\<lparr>info := new_info\<rparr>, requested))"

text \<open>
  Modelled from the spec: the decorator \<open>Throttle\<close> of \<open>homeassistant.util\<close>, which is not
  among the sources. "If less than 60 seconds have elapsed since the last successful
  refresh, is a no-op; otherwise it invokes the Feed Fetcher once per configured
  MonitoredTarget and replaces the entire mapping atomically with the new results, then
  updates the timestamp". A first call always runs.
\<close>

definition MTAData_update :: "env \<Rightarrow> MTAData \<Rightarrow> MTAData \<times> string list" where
  "MTAData_update e d =
     (if (case last_update d of
            Some t \<Rightarrow> utcnow e - t < MIN_TIME_BETWEEN_UPDATES
          | None \<Rightarrow> False)
      then (d, [])
      else (let (d', requested) = MTAData_update_body e d
            in (d'\<lparr>last_update := Some (utcnow e)\<rparr>, requested)))"

record MTABusStopSensor =
  dep_config :: departure
  stop_state :: json
  stop_attributes :: "(string \<times> json) list"

text \<open>\<open>self.data.info.get(self._dep_name, [])\<close>\<close>

definition sensor_arrivals :: "MTAData \<Rightarrow> MTABusStopSensor \<Rightarrow> (string \<times> json) list list" where
  "sensor_arrivals d s = (case info d (dep_name (dep_config s)) of Some a \<Rightarrow> a | None \<Rightarrow> [])"

text \<open>The property \<open>state\<close>.\<close>

definition MTABusStopSensor_state :: "MTAData \<Rightarrow> MTABusStopSensor \<Rightarrow> json" where
  "MTABusStopSensor_state d s =
     (case sensor_arrivals d s of
        first # _ \<Rightarrow>
          if dict_get first ''Estimated Arrival Time'' \<noteq> JStr ''Unavailable''
          then dict_get first ''Estimated Arrival Time''
          else JStr ''No arrivals''
      | [] \<Rightarrow> JStr ''No arrivals'')"

text \<open>\<open>strptime\<close> on a value: a value that is not a str raises \<open>TypeError\<close>.\<close>

definition strptime_value :: "json \<Rightarrow> datetime option" where
  "strptime_value v = (case v of JStr s \<Rightarrow> strptime s | _ \<Rightarrow> None)"

text \<open>The string \<open>eta_str\<close> of the property \<open>extra_state_attributes\<close>; every exception of the
  \<open>try\<close> block gives "N/A".\<close>

definition eta_str :: "env \<Rightarrow> (string \<times> json) list list \<Rightarrow> string" where
  "eta_str e arrivals =
     (case arrivals of
        first # _ \<Rightarrow>
          if dict_get first ''Estimated Arrival Time'' \<noteq> JStr ''Unavailable''
          then (case strptime_value (dict_get first ''Estimated Arrival Time'') of
                  None \<Rightarrow> ''N/A''
                | Some expected_dt \<Rightarrow>
                    (case eta_countdown (clock e) expected_dt of
                       Inl ex \<Rightarrow> ''N/A''
                     | Inr eta \<Rightarrow> eta))
          else ''N/A''
      | [] \<Rightarrow> ''N/A'')"

definition extra_state_attributes ::
  "env \<Rightarrow> MTAData \<Rightarrow> MTABusStopSensor \<Rightarrow> (string \<times> json) list" where
  "extra_state_attributes e d s =
     (let arrivals = sensor_arrivals d s; eta = eta_str e arrivals
      in [(''Arrivals'', JList (map JDict arrivals)),
          (''Monitoring Ref'', JStr (dep_monitoring_ref (dep_config s))),
          (''ETA in minutes'', JStr eta),
          (''Arrives'', JStr eta)])"

text \<open>\<open>MTABusStopSensor.update\<close>: refresh the shared data, then copy state and attributes.\<close>

definition MTABusStopSensor_update ::
  "env \<Rightarrow> MTAData \<Rightarrow> MTABusStopSensor \<Rightarrow> MTAData \<times> MTABusStopSensor \<times> string list" where
  "MTABusStopSensor_update e d s =
     (let (d', requested) = MTAData_update e d
      in (d',
          s\<lparr>stop_state := MTABusStopSensor_state d' s,
            stop_attributes := extra_state_attributes e d' s\<rparr>,
          requested))"


section \<open>Notions the statements use\<close>

text \<open>The sub-record of a dict under a key: empty when the key is absent, and none when
  the value there is not a dict.\<close>

definition sub_dict :: "(string \<times> json) list \<Rightarrow> string \<Rightarrow> (string \<times> json) list option" where
  "sub_dict kvs k =
     (case map_of kvs k of
        None \<Rightarrow> Some []
      | Some x \<Rightarrow> (case x of JDict sub \<Rightarrow> Some sub | _ \<Rightarrow> None))"

text \<open>The wall time of a datetime as microseconds since the start of year 1, and the
  seconds from \<open>b\<close> to \<open>a\<close> as a real number.\<close>

definition wall_microseconds :: "datetime \<Rightarrow> int" where
  "wall_microseconds d =
     (toordinal d * 86400 + seconds_of_day d) * 1000000 + int (microsecond d)"

definition seconds_between :: "datetime \<Rightarrow> datetime \<Rightarrow> real" where
  "seconds_between a b = real_of_int (wall_microseconds a - wall_microseconds b) / 1000000"

text \<open>The countdown text for a count of minutes.\<close>

definition countdown_text :: "int \<Rightarrow> string" where
  "countdown_text minutes =
     (if minutes \<ge> 0 then ''in '' @ str_int minutes @ '' minutes'' else ''Departed'')"


text \<open>The departure whose fetch is stored under a name: the last one configured with
  it, as later passes of the loop overwrite earlier ones.\<close>

definition latest_departure :: "departure list \<Rightarrow> string \<Rightarrow> departure option" where
  "latest_departure deps n = find (\<lambda>dep. dep_name dep = n) (rev deps)"

text \<open>The throttle lets the call through: first call, or the interval has elapsed.\<close>

definition refresh_due :: "env \<Rightarrow> MTAData \<Rightarrow> bool" where
  "refresh_due e d =
     (case last_update d of
        Some t \<Rightarrow> \<not> utcnow e - t < MIN_TIME_BETWEEN_UPDATES
      | None \<Rightarrow> True)"


section \<open>Example inputs\<close>

text \<open>
  A parser for the timestamps of the feed without fractional seconds,
  \<open>YYYY-MM-DDTHH:MM:SS\<close> with an optional \<open>+HH:MM\<close> or \<open>-HH:MM\<close>; both library parsers read
  such a string this way. It stands for them in the examples.
\<close>

definition iso_parser :: "string \<Rightarrow> datetime option" where
  "iso_parser s =
     Option.bind (parse_digits4 s) (\<lambda>(yy, s1).
     Option.bind (strip_prefix ''-'' s1) (\<lambda>s2.
     Option.bind (parse_digits2 s2) (\<lambda>(mo, s3).
     Option.bind (strip_prefix ''-'' s3) (\<lambda>s4.
     Option.bind (parse_digits2 s4) (\<lambda>(dd, s5).
     Option.bind (strip_prefix ''T'' s5) (\<lambda>s6.
     Option.bind (parse_digits2 s6) (\<lambda>(hh, s7).
     Option.bind (strip_prefix '':'' s7) (\<lambda>s8.
     Option.bind (parse_digits2 s8) (\<lambda>(mi, s9).
     Option.bind (strip_prefix '':'' s9) (\<lambda>s10.
     Option.bind (parse_digits2 s10) (\<lambda>(ss, s11).
     Option.bind
       (case s11 of
          [] \<Rightarrow> Some None
        | sign # s12 \<Rightarrow>
            Option.bind (parse_digits2 s12) (\<lambda>(oh, s13).
            Option.bind (strip_prefix '':'' s13) (\<lambda>s14.
            Option.bind (parse_digits2 s14) (\<lambda>(om, s15).
            if s15 = [] \<and> (sign = CHR ''+'' \<or> sign = CHR ''-'')
            then Some (Some ((if sign = CHR ''-'' then - 1 else 1) *
                             (int oh * 3600 + int om * 60)))
            else None))))
       (\<lambda>tz.
     let d = \<lparr>year = yy, month = mo, day = dd, hour = hh, minute = mi, second = ss,
              microsecond = 0, tzinfo = tz\<rparr>
     in if valid_datetime d then Some d else None))))))))))))"

text \<open>A visit of line B63 expected at the given time; its call has no \<open>Extensions\<close>.\<close>

definition example_call :: "string \<Rightarrow> (string \<times> json) list" where
  "example_call t = [(''ExpectedArrivalTime'', JStr t), (''StopPointName'', JStr ''5 AV/UNION ST'')]"

definition example_journey :: "string \<Rightarrow> (string \<times> json) list" where
  "example_journey t =
     [(''PublishedLineName'', JStr ''B63''), (''MonitoredCall'', JDict (example_call t))]"

definition example_visit :: "string \<Rightarrow> (string \<times> json) list" where
  "example_visit t = [(''MonitoredVehicleJourney'', JDict (example_journey t))]"

text \<open>A visit with passenger counts and no \<open>Distances\<close>.\<close>

definition crowded_extensions :: "(string \<times> json) list" where
  "crowded_extensions = [(''Capacities'', JDict [(''EstimatedPassengerCount'', JInt 5)])]"

definition crowded_visit :: "(string \<times> json) list" where
  "crowded_visit =
     [(''MonitoredVehicleJourney'', JDict
        [(''MonitoredCall'', JDict [(''Extensions'', JDict crowded_extensions)])])]"

text \<open>The envelope of a response around a list of deliveries.\<close>

definition siri_response :: "json list \<Rightarrow> json" where
  "siri_response deliveries =
     JDict [(''Siri'', JDict [(''ServiceDelivery'',
              JDict [(''StopMonitoringDelivery'', JList deliveries)])])]"

definition delivery_of :: "json list \<Rightarrow> json" where
  "delivery_of visits = JDict [(''MonitoredStopVisit'', JList visits)]"

text \<open>A host at 14:00:00 on 1 June 2024 (wall time of the zone asked for), answering
  every request with \<open>r\<close>; \<open>t\<close> is the reading of \<open>utcnow\<close> in microseconds.\<close>

definition example_clock :: "int option \<Rightarrow> datetime" where
  "example_clock tz = \<lparr>year = 2024, month = 6, day = 1, hour = 14, minute = 0, second = 0,
                        microsecond = 0, tzinfo = tz\<rparr>"

definition example_env :: "exn + response \<Rightarrow> int \<Rightarrow> env" where
  "example_env r t = \<lparr>requests_get = (\<lambda>url. r), fromisoformat = iso_parser,
                       dateutil_parse = iso_parser, clock = example_clock, utcnow = t\<rparr>"

definition ok_response :: "json \<Rightarrow> exn + response" where
  "ok_response data = Inr \<lparr>status_code = 200, json_body = Inr data\<rparr>"

definition example_sensor :: MTABusSensor where
  "example_sensor = \<lparr>api_key = ''key'', operator_ref = ''MTA'', monitoring_ref = ''308209'',
                      line_ref = ''B63'', state = JNull, attributes = []\<rparr>"


text \<open>A time of 1 June 2024 in the zone of the feed, four hours behind UTC.\<close>

definition example_time :: "nat \<Rightarrow> nat \<Rightarrow> nat \<Rightarrow> datetime" where
  "example_time h m sec = \<lparr>year = 2024, month = 6, day = 1, hour = h, minute = m, second = sec,
                             microsecond = 0, tzinfo = Some (- 14400)\<rparr>"


text \<open>The record the normalizer makes of \<open>example_visit\<close>, given the formatted time.\<close>

definition example_arrival :: "string \<Rightarrow> (string \<times> json) list" where
  "example_arrival formatted =
     [(''Route'', JStr ''B63''), (''Destination'', JNull),
      (''Current Vehicle Location'', JNull), (''Progress Rate'', JNull),
      (''Aimed Arrival Time'', JStr ''Unavailable''),
      (''Estimated Arrival Time'', JStr formatted),
      (''Distance'', JStr ''Unavailable''), (''Distance (m)'', JNull),
      (''Passenger Count'', JNull), (''Passenger Capacity'', JNull),
      (''Stop Name'', JStr ''5 AV/UNION ST'')]"

text \<open>Two visits, expected at 14:05 and at 14:20, and a response of two deliveries of
  which the first holds them.\<close>

definition two_visits :: "json list" where
  "two_visits = [JDict (example_visit ''2024-06-01T14:05:00-04:00''),
                 JDict (example_visit ''2024-06-01T14:20:00-04:00'')]"



text \<open>A sensor after an update that found one arrival, and two failing answers: status
  500, and status 200 with a body that does not decode.\<close>

definition stale_sensor :: MTABusSensor where
  "stale_sensor = example_sensor\<lparr>state := JStr ''June 01, 2024 at 02:05 PM'',
     attributes := [(''Arrivals'', JList [JDict (example_arrival ''June 01, 2024 at 02:05 PM'')]),
                    (''ETA in minutes'', JStr ''in 5 minutes'')]\<rparr>"

definition http_500 :: "exn + response" where
  "http_500 = Inr \<lparr>status_code = 500, json_body = Inl JSONDecodeError\<rparr>"

definition malformed_body :: "exn + response" where
  "malformed_body = Inr \<lparr>status_code = 200, json_body = Inl JSONDecodeError\<rparr>"


text \<open>Two departures sharing one \<open>MTAData\<close>, never refreshed, and the sensor of the first.\<close>

definition stop_home :: departure where
  "stop_home = \<lparr>dep_name = ''Home'', dep_monitoring_ref = ''308209'', dep_route = Some ''B63''\<rparr>"

definition stop_work :: departure where
  "stop_work = \<lparr>dep_name = ''Work'', dep_monitoring_ref = ''400100'', dep_route = None\<rparr>"

definition example_data :: MTAData where
  "example_data = \<lparr>data_api_key = ''key'', data_operator_ref = ''MTA'',
                    departures = [stop_home, stop_work], info = Map.empty, last_update = None\<rparr>"

definition home_sensor :: MTABusStopSensor where
  "home_sensor = \<lparr>dep_config = stop_home, stop_state = JNull, stop_attributes = []\<rparr>"


text \<open>Three calls on the shared cache: at time 0 every request answers status 500; at
  59.999999 s and at 61 s every request answers the two visits.\<close>

definition first_call :: env where
  "first_call = example_env http_500 0"

definition second_call :: env where
  "second_call = example_env (ok_response (siri_response [delivery_of two_visits])) 59999999"

definition third_call :: env where
  "third_call = example_env (ok_response (siri_response [delivery_of two_visits])) 61000000"

definition after_first_call :: MTAData where
  "after_first_call = fst (MTAData_update first_call example_data)"


text \<open>A status 200 whose body decodes to an array, not to an object.\<close>

definition array_body :: "exn + response" where
  "array_body = ok_response (JList [])"


text \<open>A host whose local zone is UTC, at the same moment: 18:00:00 local time, 14:00:00
  in the zone of the feed. Its requests fail.\<close>

definition utc_host_clock :: "int option \<Rightarrow> datetime" where
  "utc_host_clock tz =
     (case tz of
        None \<Rightarrow> \<lparr>year = 2024, month = 6, day = 1, hour = 18, minute = 0, second = 0,
                  microsecond = 0, tzinfo = None\<rparr>
      | Some offset \<Rightarrow> example_clock tz)"

definition utc_host_env :: env where
  "utc_host_env = \<lparr>requests_get = (\<lambda>url. Inl RequestException), fromisoformat = iso_parser,
                    dateutil_parse = iso_parser, clock = utc_host_clock, utcnow = 0\<rparr>"


text \<open>A host in the zone of the feed at a given time of 1 June 2024, answering every
  request with \<open>r\<close>, and a response of one visit expected at the given time.\<close>

definition clock_at :: "nat \<Rightarrow> nat \<Rightarrow> nat \<Rightarrow> int option \<Rightarrow> datetime" where
  "clock_at h m sec tz = \<lparr>year = 2024, month = 6, day = 1, hour = h, minute = m, second = sec,
                           microsecond = 0, tzinfo = tz\<rparr>"

definition host_env :: "exn + response \<Rightarrow> nat \<Rightarrow> nat \<Rightarrow> nat \<Rightarrow> env" where
  "host_env r h m sec = \<lparr>requests_get = (\<lambda>url. r), fromisoformat = iso_parser,
                          dateutil_parse = iso_parser, clock = clock_at h m sec, utcnow = 0\<rparr>"

definition one_visit_response :: "string \<Rightarrow> exn + response" where
  "one_visit_response t = ok_response (siri_response [delivery_of [JDict (example_visit t)]])"


section \<open>Basic facts\<close>

lemma and_then_Inr [simp]: "and_then (Inr x) f = f x"
  by (simp add: and_then_def)

lemma and_then_Inl [simp]: "and_then (Inl e) f = Inl e"
  by (simp add: and_then_def)

lemma and_then_Inr_iff: "and_then r f = Inr y \<longleftrightarrow> (\<exists>x. r = Inr x \<and> f x = Inr y)"
  by (cases r) simp_all

lemma py_get_dict [simp]:
  "py_get (JDict kvs) k d = Inr (case map_of kvs k of Some y \<Rightarrow> y | None \<Rightarrow> d)"
  by (simp add: py_get_def)

lemma py_or_Null [simp]: "py_or JNull b = b"
  by (simp add: py_or_def)

lemma dict_get_empty [simp]: "dict_get [] k = JNull"
  by (simp add: dict_get_def)

lemma sub_dict_py_get:
  "sub_dict kvs k = Some sub \<Longrightarrow> py_get (JDict kvs) k (JDict []) = Inr (JDict sub)"
  by (auto simp: sub_dict_def split: option.splits json.splits)

lemma sub_dict_absent: "sub_dict kvs k = Some sub \<Longrightarrow> map_of kvs k = None \<Longrightarrow> sub = []"
  by (simp add: sub_dict_def)

lemmas parse_defs = parse_digits4_def parse_digits2_def digit_val_def valid_datetime_def
  days_in_month_def is_leap_def

lemmas format_defs = strftime_def month_names_def pad2_def hour12_def am_pm_def
  digit_char_def format_time_def

lemmas example_defs = example_visit_def example_journey_def example_call_def
  siri_response_def delivery_of_def example_clock_def example_env_def ok_response_def
  example_sensor_def


section \<open>The normalizer\<close>

lemma normalize_visit_dicts:
  assumes "py_get visit ''MonitoredVehicleJourney'' (JDict []) = Inr (JDict j)"
    and "py_get (JDict j) ''MonitoredCall'' (JDict []) = Inr (JDict c)"
    and "py_get (JDict c) ''Extensions'' (JDict []) = Inr (JDict ex)"
    and "py_get (JDict ex) ''Distances'' (JDict []) = Inr (JDict ds)"
    and "py_get (JDict ex) ''Capacities'' (JDict []) = Inr (JDict cs)"
  shows "normalize_visit parser visit =
     Inr ([(''Route'', dict_get j ''PublishedLineName''),
           (''Destination'', dict_get j ''DestinationName''),
           (''Current Vehicle Location'', dict_get j ''VehicleLocation''),
           (''Progress Rate'', dict_get j ''ProgressRate''),
           (''Aimed Arrival Time'',
              JStr (format_time (parse_time parser (dict_get c ''AimedArrivalTime'')))),
           (''Estimated Arrival Time'',
              JStr (format_time (parse_time parser (dict_get c ''ExpectedArrivalTime'')))),
           (''Distance'', py_or (dict_get ds ''PresentableDistance'') (JStr ''Unavailable'')),
           (''Distance (m)'', dict_get ds ''DistanceFromCall''),
           (''Passenger Count'', dict_get cs ''EstimatedPassengerCount''),
           (''Passenger Capacity'', dict_get cs ''EstimatedPassengerCapacity''),
           (''Stop Name'', dict_get c ''StopPointName'')],
          parse_time parser (dict_get c ''ExpectedArrivalTime''))"
  unfolding normalize_visit_def Let_def
  by (simp only: assms and_then_Inr) (simp add: dict_get_def)

lemma example_visit_normalized:
  "normalize_visit iso_parser (JDict (example_visit ''2024-06-01T14:05:00-04:00'')) =
     Inr (example_arrival ''June 01, 2024 at 02:05 PM'', Some (example_time 14 5 0))"
  "normalize_visit iso_parser (JDict (example_visit ''2024-06-01T14:20:00-04:00'')) =
     Inr (example_arrival ''June 01, 2024 at 02:20 PM'', Some (example_time 14 20 0))"
  by (simp_all add: normalize_visit_def example_defs parse_time_def iso_parser_def parse_defs
      format_defs example_arrival_def example_time_def)

text \<open>
  C3, as amended. For a visit dict in which every sub-record that is present is a dict,
  the normalizer returns a record and raises nothing. When the journey, the call or the
  \<open>Extensions\<close> is absent, "Distance" is "Unavailable" and "Distance (m)", "Passenger
  Count" and "Passenger Capacity" are \<open>None\<close>. When \<open>Distances\<close> is absent, the two distance
  fields have these values; when \<open>Capacities\<close> is absent, the two passenger fields have.
\<close>

theorem normalize_visit_absent_sub_records:
  assumes "sub_dict v ''MonitoredVehicleJourney'' = Some j"
    and "sub_dict j ''MonitoredCall'' = Some c"
    and "sub_dict c ''Extensions'' = Some ex"
    and "sub_dict ex ''Distances'' = Some ds"
    and "sub_dict ex ''Capacities'' = Some cs"
  shows "\<exists>a dt. normalize_visit parser (JDict v) = Inr (a, dt) \<and>
     (map_of v ''MonitoredVehicleJourney'' = None \<or> map_of j ''MonitoredCall'' = None \<or>
      map_of c ''Extensions'' = None \<longrightarrow>
        map_of a ''Distance'' = Some (JStr ''Unavailable'') \<and>
        map_of a ''Distance (m)'' = Some JNull \<and>
        map_of a ''Passenger Count'' = Some JNull \<and>
        map_of a ''Passenger Capacity'' = Some JNull) \<and>
     (map_of ex ''Distances'' = None \<longrightarrow>
        map_of a ''Distance'' = Some (JStr ''Unavailable'') \<and>
        map_of a ''Distance (m)'' = Some JNull) \<and>
     (map_of ex ''Capacities'' = None \<longrightarrow>
        map_of a ''Passenger Count'' = Some JNull \<and>
        map_of a ''Passenger Capacity'' = Some JNull)"
proof -
  note eq = normalize_visit_dicts [OF assms [THEN sub_dict_py_get], of parser]
  have ds: "map_of ex ''Distances'' = None \<Longrightarrow> ds = []"
    using assms(4) by (rule sub_dict_absent)
  have cs: "map_of ex ''Capacities'' = None \<Longrightarrow> cs = []"
    using assms(5) by (rule sub_dict_absent)
  have c0: "map_of j ''MonitoredCall'' = None \<Longrightarrow> c = []"
    using assms(2) by (rule sub_dict_absent)
  have j0: "map_of v ''MonitoredVehicleJourney'' = None \<Longrightarrow> j = []"
    using assms(1) by (rule sub_dict_absent)
  have ex0: "map_of c ''Extensions'' = None \<Longrightarrow> ex = []"
    using assms(3) by (rule sub_dict_absent)
  have ex_c: "c = [] \<Longrightarrow> ex = []"
    using assms(3) by (simp add: sub_dict_def)
  have c_j: "j = [] \<Longrightarrow> c = []"
    using assms(2) by (simp add: sub_dict_def)
  have ds_ex: "ex = [] \<Longrightarrow> ds = []"
    using assms(4) by (simp add: sub_dict_def)
  have cs_ex: "ex = [] \<Longrightarrow> cs = []"
    using assms(5) by (simp add: sub_dict_def)
  have all: "map_of v ''MonitoredVehicleJourney'' = None \<or> map_of j ''MonitoredCall'' = None \<or>
      map_of c ''Extensions'' = None \<Longrightarrow> ds = [] \<and> cs = []"
    using j0 c0 ex0 ex_c c_j ds_ex cs_ex by blast
  show ?thesis
    unfolding eq using ds cs all by auto
qed

theorem normalize_visit_absent_sub_records_witness:
  "sub_dict (example_visit ''2024-06-01T14:05:00-04:00'') ''MonitoredVehicleJourney'' =
     Some (example_journey ''2024-06-01T14:05:00-04:00'') \<and>
   sub_dict (example_journey ''2024-06-01T14:05:00-04:00'') ''MonitoredCall'' =
     Some (example_call ''2024-06-01T14:05:00-04:00'') \<and>
   sub_dict (example_call ''2024-06-01T14:05:00-04:00'') ''Extensions'' = Some [] \<and>
   sub_dict [] ''Distances'' = Some [] \<and> sub_dict [] ''Capacities'' = Some [] \<and>
   map_of (example_call ''2024-06-01T14:05:00-04:00'') ''Extensions'' = None \<and>
   (\<exists>a dt. normalize_visit iso_parser (JDict (example_visit ''2024-06-01T14:05:00-04:00'')) =
              Inr (a, dt) \<and>
      map_of a ''Distance'' = Some (JStr ''Unavailable'') \<and>
      map_of a ''Distance (m)'' = Some JNull \<and>
      map_of a ''Passenger Count'' = Some JNull \<and>
      map_of a ''Passenger Capacity'' = Some JNull)"
proof -
  let ?t = "''2024-06-01T14:05:00-04:00''"
  have h1: "sub_dict (example_visit ?t) ''MonitoredVehicleJourney'' = Some (example_journey ?t)"
    by (simp add: sub_dict_def example_visit_def)
  have h2: "sub_dict (example_journey ?t) ''MonitoredCall'' = Some (example_call ?t)"
    by (simp add: sub_dict_def example_journey_def)
  have h3: "sub_dict (example_call ?t) ''Extensions'' = Some []"
    by (simp add: sub_dict_def example_call_def)
  have h4: "sub_dict [] ''Distances'' = Some []" and h5: "sub_dict [] ''Capacities'' = Some []"
    by (simp_all add: sub_dict_def)
  have absent: "map_of (example_call ?t) ''Extensions'' = None"
    by (simp add: example_call_def)
  show ?thesis
    using normalize_visit_absent_sub_records [OF h1 h2 h3 h4 h5, of iso_parser]
      h1 h2 h3 h4 h5 absent
    by auto
qed

text \<open>The claim as stated fails for a visit whose \<open>Extensions\<close> holds \<open>Capacities\<close> and no
  \<open>Distances\<close>: a sub-record is absent, and "Passenger Count" is 5.\<close>

theorem normalize_visit_distances_absent_counterexample:
  "map_of crowded_extensions ''Distances'' = None \<and>
   normalize_visit iso_parser (JDict crowded_visit) =
     Inr ([(''Route'', JNull), (''Destination'', JNull),
           (''Current Vehicle Location'', JNull), (''Progress Rate'', JNull),
           (''Aimed Arrival Time'', JStr ''Unavailable''),
           (''Estimated Arrival Time'', JStr ''Unavailable''),
           (''Distance'', JStr ''Unavailable''), (''Distance (m)'', JNull),
           (''Passenger Count'', JInt 5), (''Passenger Capacity'', JNull),
           (''Stop Name'', JNull)],
          None)"
  by (simp add: normalize_visit_def crowded_visit_def crowded_extensions_def parse_time_def
      format_time_def)

text \<open>
  C9. Every record the normalizer returns has the same eleven keys, in the same order,
  whatever the visit and whichever parser the variant uses.
\<close>

theorem arrival_record_keys:
  "normalize_visit parser visit = Inr (a, dt) \<Longrightarrow> map fst a = arrival_keys"
  unfolding normalize_visit_def Let_def and_then_Inr_iff arrival_keys_def
  by auto

theorem arrival_record_keys_witness:
  "normalize_visit iso_parser (JDict crowded_visit) =
     Inr ([(''Route'', JNull), (''Destination'', JNull),
           (''Current Vehicle Location'', JNull), (''Progress Rate'', JNull),
           (''Aimed Arrival Time'', JStr ''Unavailable''),
           (''Estimated Arrival Time'', JStr ''Unavailable''),
           (''Distance'', JStr ''Unavailable''), (''Distance (m)'', JNull),
           (''Passenger Count'', JInt 5), (''Passenger Capacity'', JNull),
           (''Stop Name'', JNull)],
          None) \<and>
   [''Route'', ''Destination'', ''Current Vehicle Location'', ''Progress Rate'',
    ''Aimed Arrival Time'', ''Estimated Arrival Time'', ''Distance'', ''Distance (m)'',
    ''Passenger Count'', ''Passenger Capacity'', ''Stop Name''] = arrival_keys"
proof -
  have h: "normalize_visit iso_parser (JDict crowded_visit) =
     Inr ([(''Route'', JNull), (''Destination'', JNull),
           (''Current Vehicle Location'', JNull), (''Progress Rate'', JNull),
           (''Aimed Arrival Time'', JStr ''Unavailable''),
           (''Estimated Arrival Time'', JStr ''Unavailable''),
           (''Distance'', JStr ''Unavailable''), (''Distance (m)'', JNull),
           (''Passenger Count'', JInt 5), (''Passenger Capacity'', JNull),
           (''Stop Name'', JNull)],
          None)"
    by (simp add: normalize_visit_def crowded_visit_def crowded_extensions_def parse_time_def
      format_time_def)
  show ?thesis
    using arrival_record_keys [OF h] h by simp
qed

section \<open>The countdown\<close>

lemma datetime_now_tzinfo [simp]: "tzinfo (datetime_now clk tz) = tz"
  by (simp add: datetime_now_def)

lemma datetime_sub_same_tz:
  "tzinfo a = tzinfo b \<Longrightarrow> datetime_sub a b = Inr (wall_microseconds a - wall_microseconds b)"
  by (simp add: datetime_sub_def wall_microseconds_def Let_def algebra_simps)

lemma floor_minutes: "\<lfloor>real_of_int k / 1000000 / 60\<rfloor> = k div 60000000"
proof -
  have "real_of_int k / 1000000 / 60 = real_of_int k / real_of_int 60000000"
    by simp
  then show ?thesis
    by (simp only: floor_divide_of_int_eq)
qed

subsection \<open>The float is exact enough below \<open>2^34\<close> seconds\<close>

lemma binade_le:
  assumes "0 < n" and "n < 2 ^ 34 * 1000000"
  shows "binade n \<le> 33"
proof -
  let ?k = "bitlen n - 1"
  from bitlen_bounds [OF assms(1)] have lo: "2 ^ nat ?k \<le> n" by simp
  show ?thesis
  proof (cases "n * 2 ^ 19 < 1000000 * 2 ^ nat ?k")
    case True
    have "(2::int) ^ nat ?k < 2 ^ 54"
      using lo assms(2) by simp
    then have "nat ?k < 54"
      by (simp only: power_strict_increasing_iff one_less_numeral_iff semiring_norm)
    with True show ?thesis
      by (simp add: binade_def Let_def)
  next
    case False
    then have "1000000 * (2::int) ^ nat ?k \<le> n * 2 ^ 19" by simp
    also have "\<dots> < 2 ^ 34 * 1000000 * 2 ^ 19"
      using assms(2) by simp
    finally have "(2::int) ^ nat ?k < 2 ^ 53"
      by simp
    then have "nat ?k < 53"
      by (simp only: power_strict_increasing_iff one_less_numeral_iff semiring_norm)
    with False show ?thesis
      by (simp add: binade_def Let_def)
  qed
qed

lemma round_half_even_bounds:
  assumes "0 < b"
  shows "a div b \<le> round_half_even a b" and "round_half_even a b \<le> a div b + 1"
    and "2 * (a mod b) < b \<Longrightarrow> round_half_even a b = a div b"
  by (simp_all add: round_half_even_def Let_def)

text \<open>Rounding the microseconds, scaled by more than half a million, to a multiple of a
  millionth of the scale does not leave the minute they lie in.\<close>

lemma scaled_minutes:
  fixes us s K :: int
  assumes s: "500000 < s"
    and lo: "60000000 * K \<le> us" and hi: "us < 60000000 * (K + 1)"
  shows "60 * s * K \<le> round_half_even (us * s) 1000000"
    and "round_half_even (us * s) 1000000 < 60 * s * (K + 1)"
proof -
  define a where "a = us * s"
  define q where "q = a div 1000000"
  define r where "r = a mod 1000000"
  define P where "P = K * s"
  have a: "a = q * 1000000 + r" and r: "0 \<le> r" "r < 1000000"
    by (simp_all add: q_def r_def)
  from lo s have "60000000 * K * s \<le> us * s"
    by (intro mult_right_mono) simp_all
  then have alo: "60000000 * P \<le> a"
    by (simp add: a_def P_def mult.assoc)
  from hi have "us \<le> 60000000 * (K + 1) - 1" by simp
  with s have "us * s \<le> (60000000 * (K + 1) - 1) * s"
    by (intro mult_right_mono) simp_all
  then have ahi: "a \<le> 60000000 * P + 60000000 * s - s"
    by (simp add: a_def P_def algebra_simps)
  from alo a r have qlo: "60 * P \<le> q"
    by linarith
  from ahi a r s have qhi: "q \<le> 60 * P + 60 * s - 1"
    by linarith
  have rhe: "q \<le> round_half_even a 1000000" "round_half_even a 1000000 \<le> q + 1"
    "2 * r < 1000000 \<Longrightarrow> round_half_even a 1000000 = q"
    unfolding q_def r_def by (rule round_half_even_bounds; simp)+
  from qlo rhe(1) show "60 * s * K \<le> round_half_even (us * s) 1000000"
    by (simp add: a_def P_def mult.assoc mult.commute)
  have "round_half_even a 1000000 < 60 * P + 60 * s"
  proof (cases "q = 60 * P + 60 * s - 1")
    case True
    with ahi a s have "2 * r < 1000000" by linarith
    from rhe(3) [OF this] True show ?thesis by simp
  next
    case False
    with qhi rhe(2) show ?thesis by linarith
  qed
  then show "round_half_even (us * s) 1000000 < 60 * s * (K + 1)"
    by (simp add: a_def P_def algebra_simps)
qed

lemma total_seconds_minutes:
  assumes "\<bar>us\<bar> < 2 ^ 34 * 1000000"
  shows "floordiv_60 (total_seconds us) = us div 60000000"
proof (cases "us = 0")
  case True
  then show ?thesis by (simp add: floordiv_60_def total_seconds_def)
next
  case False
  define e where "e = binade \<bar>us\<bar>"
  define s :: int where "s = 2 ^ nat (52 - e)"
  define K where "K = us div 60000000"
  define q where "q = round_half_even (us * s) 1000000"
  from False assms have e: "e \<le> 33"
    unfolding e_def by (intro binade_le) simp_all
  then have "19 \<le> nat (52 - e)" by simp
  then have "(2::int) ^ 19 \<le> 2 ^ nat (52 - e)"
    by (rule power_increasing) simp
  then have s: "500000 < s" by (simp add: s_def)
  have lo: "60000000 * K \<le> us" and hi: "us < 60000000 * (K + 1)"
    unfolding K_def by (simp_all add: algebra_simps)
  note b = scaled_minutes [OF s lo hi, folded q_def]
  from s have s0: "0 < 60 * s" by simp
  have ts: "total_seconds us = real_of_int q / real_of_int s"
    using False e by (simp add: total_seconds_def Let_def e_def [symmetric] q_def s_def)
  have "floordiv_60 (total_seconds us) = \<lfloor>real_of_int q / real_of_int (60 * s)\<rfloor>"
    by (simp add: floordiv_60_def ts mult.commute)
  also have "\<dots> = q div (60 * s)"
    by (rule floor_divide_of_int_eq)
  also have "\<dots> = K"
  proof -
    define d where "d = q - 60 * s * K"
    from b have d: "0 \<le> d" "d < 60 * s"
      by (simp_all add: d_def algebra_simps)
    have "q = d + K * (60 * s)"
      by (simp add: d_def)
    then have "q div (60 * s) = d div (60 * s) + K"
      using s0 by (simp only: div_mult_self1 [of "60 * s" d K])
    with d show ?thesis by simp
  qed
  finally show ?thesis by (simp add: K_def)
qed

text \<open>Beyond that the float can round up to the next minute: a microsecond short of
  513325440 minutes (about 976 years) the code counts 513325440.\<close>

lemma total_seconds_rounds_up:
  "floordiv_60 (total_seconds 30799526399999999) = 513325440"
  "30799526399999999 div 60000000 = (513325439 :: int)"
  by (simp_all add: floordiv_60_def total_seconds_def binade_def round_half_even_def
      compute_bitlen Let_def)

subsection \<open>The countdown of both variants\<close>

lemma eta_countdown_eq:
  assumes "\<bar>wall_microseconds e - wall_microseconds (datetime_now clk (tzinfo e))\<bar>
             < 2 ^ 34 * 1000000"
  shows "eta_countdown clk e =
     Inr (countdown_text \<lfloor>seconds_between e (datetime_now clk (tzinfo e)) / 60\<rfloor>)"
proof -
  let ?now = "datetime_now clk (tzinfo e)"
  have sub: "datetime_sub e ?now = Inr (wall_microseconds e - wall_microseconds ?now)"
    by (rule datetime_sub_same_tz) simp
  have fl: "\<lfloor>seconds_between e ?now / 60\<rfloor> =
            (wall_microseconds e - wall_microseconds ?now) div 60000000"
    unfolding seconds_between_def by (rule floor_minutes)
  show ?thesis
    unfolding eta_countdown_def Let_def sub fl and_then_Inr countdown_text_def
      total_seconds_minutes [OF assms] ..
qed

lemma eta_countdown_total: "\<exists>eta. eta_countdown clk e = Inr eta"
  by (simp add: eta_countdown_def Let_def datetime_sub_same_tz)

text \<open>Single-target: "N/A" without a datetime; with one, the floor of the seconds to it
  over sixty, whenever the two times are less than \<open>2^34\<close> seconds (544 years) apart.\<close>

lemma eta_in_minutes_floor:
  "eta_in_minutes clk None = Inr ''N/A''"
  "\<bar>wall_microseconds e - wall_microseconds (datetime_now clk (tzinfo e))\<bar> < 2 ^ 34 * 1000000 \<Longrightarrow>
   eta_in_minutes clk (Some e) =
     Inr (countdown_text \<lfloor>seconds_between e (datetime_now clk (tzinfo e)) / 60\<rfloor>)"
  by (simp_all add: eta_in_minutes_def eta_countdown_eq)

text \<open>Multi-target: the countdown is to the datetime read back from the first arrival's
  "Estimated Arrival Time".\<close>

lemma eta_str_Cons:
  "eta_str e (first # rest) =
     (case dict_get first ''Estimated Arrival Time'' of
        JStr s \<Rightarrow>
          if s = ''Unavailable'' then ''N/A''
          else (case strptime s of
                  None \<Rightarrow> ''N/A''
                | Some reparsed \<Rightarrow>
                    (case eta_countdown (clock e) reparsed of
                       Inl ex \<Rightarrow> ''N/A''
                     | Inr eta \<Rightarrow> eta))
      | _ \<Rightarrow> ''N/A'')"
  by (simp add: eta_str_def strptime_value_def split: json.splits option.splits)

lemma strptime_naive: "strptime s = Some d \<Longrightarrow> tzinfo d = None"
  by (auto simp: strptime_def Option.bind_eq_Some_conv split: if_splits)

lemmas time_defs = seconds_between_def wall_microseconds_def toordinal_def
  days_before_year_def days_before_month_def seconds_of_day_def is_leap_def datetime_now_def
  countdown_text_def str_int_def digit_char_def example_time_def example_clock_def
  clock_at_def

lemmas strptime_defs = strptime_def month_names_def parse_digits4_def parse_digits2_def
  digit_val_def hour24_def parse_am_pm_def days_in_month_def is_leap_def


section \<open>The fetch result follows the provider's list\<close>





lemma eta_in_minutes_total: "\<exists>eta. eta_in_minutes clk dt = Inr eta"
  by (cases dt) (simp_all add: eta_in_minutes_def eta_countdown_total)





section \<open>Single-target \<open>update\<close>\<close>

text \<open>
  C2, at a response of two visits expected at 14:05 and 14:20, read at 14:00. The state
  is the first arrival's time, while "ETA in minutes" is the countdown to the second
  visit: after the loop \<open>expected_dt\<close> holds the datetime of the last visit. The countdown
  to the first arrival would be "in 5 minutes".
\<close>

theorem update_eta_from_last_visit:
  "state (update (example_env (ok_response (siri_response [delivery_of two_visits])) 0)
            example_sensor) = JStr ''June 01, 2024 at 02:05 PM'' \<and>
   map_of (attributes (update (example_env (ok_response (siri_response [delivery_of two_visits])) 0)
                         example_sensor)) ''ETA in minutes'' = Some (JStr ''in 20 minutes'') \<and>
   eta_in_minutes example_clock (iso_parser ''2024-06-01T14:05:00-04:00'') = Inr ''in 5 minutes''"
proof -
  have rv: "read_visits iso_parser (JList [delivery_of two_visits]) =
     Inr ([example_arrival ''June 01, 2024 at 02:05 PM'',
           example_arrival ''June 01, 2024 at 02:20 PM''], Some (example_time 14 20 0))"
    by (simp add: read_visits_def py_index0_def delivery_of_def py_iter_def two_visits_def
        example_visit_normalized)
  have rd: "read_delivery (siri_response [delivery_of two_visits]) =
              Inr (JList [delivery_of two_visits])"
    by (simp add: read_delivery_def siri_response_def)
  have eta: "eta_in_minutes example_clock (Some (example_time 14 20 0)) = Inr ''in 20 minutes''"
    by (simp add: eta_in_minutes_def eta_countdown_eq time_defs)
  have pr: "process_response (example_env (ok_response (siri_response [delivery_of two_visits])) 0)
              (siri_response [delivery_of two_visits]) =
     Inr (JStr ''June 01, 2024 at 02:05 PM'',
          [(''Arrivals'', JList (map JDict [example_arrival ''June 01, 2024 at 02:05 PM'',
                                            example_arrival ''June 01, 2024 at 02:20 PM''])),
           (''ETA in minutes'', JStr ''in 20 minutes'')])"
    by (simp add: process_response_def rd example_env_def rv eta dict_get_def example_arrival_def)
  have first: "eta_in_minutes example_clock (iso_parser ''2024-06-01T14:05:00-04:00'') =
                 Inr ''in 5 minutes''"
    by (simp add: iso_parser_def parse_defs eta_in_minutes_def eta_countdown_eq time_defs)
  show ?thesis
    using pr first by (simp add: update_def example_env_def ok_response_def)
qed

text \<open>
  C10. When the request raises, when the status is not 200 and when decoding or reading
  the response raises, \<open>update\<close> changes the state to "Error" and nothing else: the
  attributes of the cycle before stay. Attributes change only when a response with status
  200 was read to its end.
\<close>

theorem update_error_keeps_attributes:
  "(requests_get e (sensor_url s) = Inl ex \<longrightarrow> update e s = s\<lparr>state := JStr ''Error''\<rparr>) \<and>
   (requests_get e (sensor_url s) = Inr r \<and> status_code r \<noteq> 200 \<longrightarrow>
      update e s = s\<lparr>state := JStr ''Error''\<rparr>) \<and>
   (requests_get e (sensor_url s) = Inr r \<and> status_code r = 200 \<and>
    and_then (json_body r) (process_response e) = Inl ex \<longrightarrow>
      update e s = s\<lparr>state := JStr ''Error''\<rparr>) \<and>
   attributes (s\<lparr>state := JStr ''Error''\<rparr>) = attributes s \<and>
   (attributes (update e s) \<noteq> attributes s \<longrightarrow>
      (\<exists>r st. requests_get e (sensor_url s) = Inr r \<and> status_code r = 200 \<and>
         and_then (json_body r) (process_response e) = Inr (st, attributes (update e s))))"
  by (auto simp: update_def split: sum.splits)

text \<open>A sensor holding one arrival and "in 5 minutes" keeps both through a failed
  request, a status 500 and a malformed body; a decoded empty object replaces them.\<close>

theorem update_error_keeps_attributes_witness:
  "update (example_env (Inl RequestException) 0) stale_sensor =
     stale_sensor\<lparr>state := JStr ''Error''\<rparr> \<and>
   update (example_env http_500 0) stale_sensor = stale_sensor\<lparr>state := JStr ''Error''\<rparr> \<and>
   update (example_env malformed_body 0) stale_sensor = stale_sensor\<lparr>state := JStr ''Error''\<rparr> \<and>
   attributes (update (example_env (ok_response (JDict [])) 0) stale_sensor) =
     [(''Arrivals'', JList [])] \<and>
   attributes (stale_sensor\<lparr>state := JStr ''Error''\<rparr>) =
     [(''Arrivals'', JList [JDict (example_arrival ''June 01, 2024 at 02:05 PM'')]),
      (''ETA in minutes'', JStr ''in 5 minutes'')]"
proof -
  let ?r5 = "\<lparr>status_code = 500, json_body = Inl JSONDecodeError\<rparr>"
  let ?rm = "\<lparr>status_code = 200, json_body = Inl JSONDecodeError\<rparr>"
  have 1: "update (example_env (Inl RequestException) 0) stale_sensor =
             stale_sensor\<lparr>state := JStr ''Error''\<rparr>"
    using update_error_keeps_attributes [of "example_env (Inl RequestException) 0" stale_sensor
        RequestException ?r5]
    by (simp add: example_env_def)
  have 2: "update (example_env http_500 0) stale_sensor = stale_sensor\<lparr>state := JStr ''Error''\<rparr>"
    using update_error_keeps_attributes [of "example_env http_500 0" stale_sensor
        RequestException ?r5]
    by (simp add: example_env_def http_500_def)
  have 3: "update (example_env malformed_body 0) stale_sensor =
             stale_sensor\<lparr>state := JStr ''Error''\<rparr>"
    using update_error_keeps_attributes [of "example_env malformed_body 0" stale_sensor
        JSONDecodeError ?rm]
    by (simp add: example_env_def malformed_body_def)
  have 4: "attributes (update (example_env (ok_response (JDict [])) 0) stale_sensor) =
     [(''Arrivals'', JList [])]"
    by (simp add: update_def example_env_def ok_response_def process_response_def
        read_delivery_def)
  have 5: "attributes (stale_sensor\<lparr>state := JStr ''Error''\<rparr>) =
     [(''Arrivals'', JList [JDict (example_arrival ''June 01, 2024 at 02:05 PM'')]),
      (''ETA in minutes'', JStr ''in 5 minutes'')]"
    by (simp add: stale_sensor_def)
  from 1 2 3 4 5 show ?thesis by blast
qed

section \<open>The shared cache\<close>

lemma fetch_all_requested:
  "snd (fetch_all e d deps acc) = snd acc @ map (departure_url d) deps"
  by (induction deps arbitrary: acc) simp_all

lemma find_snoc:
  "find P (xs @ [x]) = (case find P xs of Some y \<Rightarrow> Some y | None \<Rightarrow> if P x then Some x else None)"
  by (induction xs) simp_all

lemma fetch_all_info:
  "fst (fetch_all e d deps acc) n =
     (case latest_departure deps n of
        Some dep \<Rightarrow> Some (fetch_departure e d dep)
      | None \<Rightarrow> fst acc n)"
proof (induction deps arbitrary: acc)
  case Nil
  then show ?case by (simp add: latest_departure_def)
next
  case (Cons dep deps)
  show ?case
    by (simp add: Cons.IH) (simp add: latest_departure_def find_snoc split: option.splits)
qed

lemma departure_url_frame [simp]:
  "departure_url (d\<lparr>info := i\<rparr>) dep = departure_url d dep"
  "departure_url (d\<lparr>last_update := t\<rparr>) dep = departure_url d dep"
  by (simp_all add: departure_url_def)

lemma fetch_departure_frame [simp]:
  "fetch_departure e (d\<lparr>info := i\<rparr>) dep = fetch_departure e d dep"
  "fetch_departure e (d\<lparr>last_update := t\<rparr>) dep = fetch_departure e d dep"
  by (simp_all add: fetch_departure_def)

lemma MTAData_update_due:
  assumes "refresh_due e d"
  shows "MTAData_update e d =
     (d\<lparr>info := (\<lambda>n. map_option (fetch_departure e d) (latest_departure (departures d) n)),
        last_update := Some (utcnow e)\<rparr>,
      map (departure_url d) (departures d))"
proof -
  have i: "fst (fetch_all e d (departures d) (Map.empty, [])) =
             (\<lambda>n. map_option (fetch_departure e d) (latest_departure (departures d) n))"
    by (rule ext) (simp add: fetch_all_info split: option.splits)
  have l: "snd (fetch_all e d (departures d) (Map.empty, [])) = map (departure_url d) (departures d)"
    by (simp add: fetch_all_requested)
  from assms have c: "\<not> (case last_update d of Some t \<Rightarrow> utcnow e - t < MIN_TIME_BETWEEN_UPDATES
                         | None \<Rightarrow> False)"
    by (simp add: refresh_due_def split: option.splits)
  show ?thesis
    unfolding MTAData_update_def MTAData_update_body_def using c i l
    by (simp add: case_prod_beta)
qed

lemma MTAData_update_not_due:
  assumes "\<not> refresh_due e d"
  shows "MTAData_update e d = (d, [])"
  using assms by (simp add: MTAData_update_def refresh_due_def split: option.splits)

lemma empty_entry_no_arrivals:
  "info d (dep_name (dep_config ms)) = Some [] \<Longrightarrow> MTABusStopSensor_state d ms = JStr ''No arrivals''"
  by (simp add: MTABusStopSensor_state_def sensor_arrivals_def)

lemma stop_state_update:
  "stop_state (fst (snd (MTABusStopSensor_update e d ms))) =
     MTABusStopSensor_state (fst (MTAData_update e d)) ms"
  by (simp add: MTABusStopSensor_update_def case_prod_beta)

lemma fetch_departure_failed:
  "requests_get e (departure_url d dep) = Inl ex \<Longrightarrow> fetch_departure e d dep = []"
  "requests_get e (departure_url d dep) = Inr r \<Longrightarrow> status_code r \<noteq> 200 \<Longrightarrow>
     fetch_departure e d dep = []"
  "requests_get e (departure_url d dep) = Inr r \<Longrightarrow>
     and_then (json_body r) (read_arrivals e) = Inl ex \<Longrightarrow> fetch_departure e d dep = []"
  by (simp_all add: fetch_departure_def)

lemma failed_fetch_no_arrivals:
  assumes "refresh_due e d"
    and "latest_departure (departures d) (dep_name (dep_config ms)) = Some dep"
    and "fetch_departure e d dep = []"
  shows "info (fst (MTAData_update e d)) (dep_name (dep_config ms)) = Some []"
    and "stop_state (fst (snd (MTABusStopSensor_update e d ms))) = JStr ''No arrivals''"
proof -
  show i: "info (fst (MTAData_update e d)) (dep_name (dep_config ms)) = Some []"
    using assms by (simp add: MTAData_update_due)
  show "stop_state (fst (snd (MTABusStopSensor_update e d ms))) = JStr ''No arrivals''"
    unfolding stop_state_update using i by (rule empty_entry_no_arrivals)
qed

lemmas multi_defs = example_data_def stop_home_def stop_work_def home_sensor_def
  latest_departure_def refresh_due_def


section \<open>The state after an update\<close>

text \<open>
  C4. Single-target: after \<open>update\<close> the state is "Error" when the request raised, when
  the status is not 200 and when decoding or reading the response raised; "No data" when
  the delivery list is absent or empty (not truthy); "No arrivals" when the first delivery
  has no visit; otherwise the "Estimated Arrival Time" of the first arrival. Multi-target:
  when the cache refreshes and the request of a target returns a status other than 200,
  the entry of the target is the empty list and its sensor's state is "No arrivals".
\<close>

theorem states_after_update:
  "(requests_get e (sensor_url s) = Inl ex \<longrightarrow> state (update e s) = JStr ''Error'') \<and>
   (requests_get e (sensor_url s) = Inr r \<and> status_code r \<noteq> 200 \<longrightarrow>
      state (update e s) = JStr ''Error'') \<and>
   (requests_get e (sensor_url s) = Inr r \<and> status_code r = 200 \<and>
    and_then (json_body r) (process_response e) = Inl ex \<longrightarrow>
      state (update e s) = JStr ''Error'') \<and>
   (requests_get e (sensor_url s) = Inr r \<and> status_code r = 200 \<and> json_body r = Inr data \<and>
    read_delivery data = Inr delivery \<longrightarrow>
      (\<not> truthy delivery \<longrightarrow> state (update e s) = JStr ''No data'') \<and>
      (truthy delivery \<and> read_visits (fromisoformat e) delivery = Inr ([], dt) \<longrightarrow>
         state (update e s) = JStr ''No arrivals'') \<and>
      (truthy delivery \<and> read_visits (fromisoformat e) delivery = Inr (first # others, dt) \<longrightarrow>
         state (update e s) = dict_get first ''Estimated Arrival Time'')) \<and>
   (refresh_due e d \<and> latest_departure (departures d) (dep_name (dep_config ms)) = Some dep \<and>
    requests_get e (departure_url d dep) = Inr r \<and> status_code r \<noteq> 200 \<longrightarrow>
      info (fst (MTAData_update e d)) (dep_name (dep_config ms)) = Some [] \<and>
      stop_state (fst (snd (MTABusStopSensor_update e d ms))) = JStr ''No arrivals'')"
proof -
  have a: "requests_get e (sensor_url s) = Inl ex \<Longrightarrow> state (update e s) = JStr ''Error''"
    by (simp add: update_def)
  have b: "requests_get e (sensor_url s) = Inr r \<Longrightarrow> status_code r \<noteq> 200 \<Longrightarrow>
      state (update e s) = JStr ''Error''"
    by (simp add: update_def)
  have c: "requests_get e (sensor_url s) = Inr r \<Longrightarrow> status_code r = 200 \<Longrightarrow>
    and_then (json_body r) (process_response e) = Inl ex \<Longrightarrow> state (update e s) = JStr ''Error''"
    by (simp add: update_def)
  have ok: "state (update e s) = st"
    if "requests_get e (sensor_url s) = Inr r" "status_code r = 200" "json_body r = Inr data"
      "process_response e data = Inr (st, attrs)" for st attrs
    using that by (simp add: update_def)
  have d1: "state (update e s) = JStr ''No data''"
    if "requests_get e (sensor_url s) = Inr r" "status_code r = 200" "json_body r = Inr data"
      "read_delivery data = Inr delivery" "\<not> truthy delivery"
    using that by (intro ok [OF that(1-3)]) (simp add: process_response_def)
  have d2: "state (update e s) = JStr ''No arrivals''"
    if "requests_get e (sensor_url s) = Inr r" "status_code r = 200" "json_body r = Inr data"
      "read_delivery data = Inr delivery" "truthy delivery"
      "read_visits (fromisoformat e) delivery = Inr ([], dt)"
    using that by (intro ok [OF that(1-3)]) (simp add: process_response_def)
  have d3: "state (update e s) = dict_get first ''Estimated Arrival Time''"
    if "requests_get e (sensor_url s) = Inr r" "status_code r = 200" "json_body r = Inr data"
      "read_delivery data = Inr delivery" "truthy delivery"
      "read_visits (fromisoformat e) delivery = Inr (first # others, dt)"
  proof -
    obtain eta where "eta_in_minutes (clock e) dt = Inr eta"
      using eta_in_minutes_total by blast
    with that show ?thesis
      by (intro ok [OF that(1-3)]) (simp add: process_response_def)
  qed
  have m: "info (fst (MTAData_update e d)) (dep_name (dep_config ms)) = Some [] \<and>
      stop_state (fst (snd (MTABusStopSensor_update e d ms))) = JStr ''No arrivals''"
    if "refresh_due e d" "latest_departure (departures d) (dep_name (dep_config ms)) = Some dep"
      "requests_get e (departure_url d dep) = Inr r" "status_code r \<noteq> 200"
    using failed_fetch_no_arrivals [OF that(1,2) fetch_departure_failed(2) [OF that(3,4)]]
    by simp
  from a b c d1 d2 d3 m show ?thesis by blast
qed

text \<open>One response for each case: a failed request, status 500, a body that is not JSON,
  an empty object, an empty delivery list, a delivery without visits, a delivery of two
  visits; and status 500 for the two departures of the shared cache.\<close>

theorem states_after_update_witness:
  "state (update (example_env (Inl RequestException) 0) example_sensor) = JStr ''Error'' \<and>
   state (update (example_env http_500 0) example_sensor) = JStr ''Error'' \<and>
   state (update (example_env malformed_body 0) example_sensor) = JStr ''Error'' \<and>
   state (update (example_env (ok_response (JDict [])) 0) example_sensor) = JStr ''No data'' \<and>
   state (update (example_env (ok_response (siri_response [])) 0) example_sensor) =
     JStr ''No data'' \<and>
   state (update (example_env (ok_response (siri_response [delivery_of []])) 0) example_sensor) =
     JStr ''No arrivals'' \<and>
   state (update (example_env (ok_response (siri_response [delivery_of two_visits])) 0)
            example_sensor) = JStr ''June 01, 2024 at 02:05 PM'' \<and>
   info (fst (MTAData_update (example_env http_500 0) example_data)) ''Home'' = Some [] \<and>
   stop_state (fst (snd (MTABusStopSensor_update (example_env http_500 0) example_data
                           home_sensor))) = JStr ''No arrivals''"
proof -
  let ?r5 = "\<lparr>status_code = 500, json_body = Inl JSONDecodeError\<rparr>"
  let ?rm = "\<lparr>status_code = 200, json_body = Inl JSONDecodeError\<rparr>"
  let ?ok = "\<lambda>data. \<lparr>status_code = 200, json_body = Inr data\<rparr>"
  note st = states_after_update [where s = example_sensor and d = example_data
      and ms = home_sensor and dep = stop_home and ex = RequestException]
  have 1: "state (update (example_env (Inl RequestException) 0) example_sensor) = JStr ''Error''"
    using st [of "example_env (Inl RequestException) 0" ?r5]
    by (simp add: example_env_def)
  have 2: "state (update (example_env http_500 0) example_sensor) = JStr ''Error''"
    using st [of "example_env http_500 0" ?r5]
    by (simp add: example_env_def http_500_def)
  have 3: "state (update (example_env malformed_body 0) example_sensor) = JStr ''Error''"
    using states_after_update [where s = example_sensor and ex = JSONDecodeError
        and e = "example_env malformed_body 0" and r = ?rm]
    by (simp add: example_env_def malformed_body_def)
  have 4: "state (update (example_env (ok_response (JDict [])) 0) example_sensor) =
             JStr ''No data''"
    using st [of "example_env (ok_response (JDict [])) 0" "?ok (JDict [])" "JDict []" "JList []"]
    by (simp add: example_env_def ok_response_def read_delivery_def)
  have 5: "state (update (example_env (ok_response (siri_response [])) 0) example_sensor) =
             JStr ''No data''"
    using st [of "example_env (ok_response (siri_response [])) 0" "?ok (siri_response [])"
        "siri_response []" "JList []"]
    by (simp add: example_env_def ok_response_def read_delivery_def siri_response_def)
  have 6: "state (update (example_env (ok_response (siri_response [delivery_of []])) 0)
                    example_sensor) = JStr ''No arrivals''"
    using st [of "example_env (ok_response (siri_response [delivery_of []])) 0"
        "?ok (siri_response [delivery_of []])" "siri_response [delivery_of []]"
        "JList [delivery_of []]" None]
    by (simp add: example_env_def ok_response_def read_delivery_def siri_response_def
        read_visits_def py_index0_def delivery_of_def py_iter_def)
  have rv: "read_visits iso_parser (JList [delivery_of two_visits]) =
     Inr (example_arrival ''June 01, 2024 at 02:05 PM'' #
          [example_arrival ''June 01, 2024 at 02:20 PM''], Some (example_time 14 20 0))"
    by (simp add: read_visits_def py_index0_def delivery_of_def py_iter_def two_visits_def
        example_visit_normalized)
  have 7: "state (update (example_env (ok_response (siri_response [delivery_of two_visits])) 0)
            example_sensor) = JStr ''June 01, 2024 at 02:05 PM''"
    using st [of "example_env (ok_response (siri_response [delivery_of two_visits])) 0"
        "?ok (siri_response [delivery_of two_visits])" "siri_response [delivery_of two_visits]"
        "JList [delivery_of two_visits]" "Some (example_time 14 20 0)"
        "example_arrival ''June 01, 2024 at 02:05 PM''"
        "[example_arrival ''June 01, 2024 at 02:20 PM'']"] rv
    by (simp add: example_env_def ok_response_def read_delivery_def siri_response_def
        dict_get_def example_arrival_def)
  have 8: "info (fst (MTAData_update (example_env http_500 0) example_data)) ''Home'' = Some [] \<and>
     stop_state (fst (snd (MTABusStopSensor_update (example_env http_500 0) example_data
                           home_sensor))) = JStr ''No arrivals''"
    using st [of "example_env http_500 0" ?r5]
    by (simp add: example_env_def http_500_def multi_defs)
  from 1 2 3 4 5 6 7 8 show ?thesis by blast
qed

section \<open>The throttle\<close>

text \<open>
  C5. Start from a call that the throttle lets through. A second call less than 60
  seconds after it requests nothing and returns the cache as it was, mapping and time
  stamp: the two calls together made one request per configured departure. A third call,
  once 60 seconds have passed since the first, makes one request per departure again,
  whatever the first call stored for it, and the new mapping holds the new results only:
  for each name the fetch of the departure configured with it, and nothing for other names.
\<close>

theorem refresh_once_per_interval:
  assumes "refresh_due e1 d0"
    and "MTAData_update e1 d0 = (d1, requested1)"
    and "MTAData_update e2 d1 = (d2, requested2)"
    and "MTAData_update e3 d2 = (d3, requested3)"
    and "utcnow e2 - utcnow e1 < MIN_TIME_BETWEEN_UPDATES"
    and "\<not> utcnow e3 - utcnow e1 < MIN_TIME_BETWEEN_UPDATES"
  shows "requested1 @ requested2 = map (departure_url d0) (departures d0) \<and>
         d2 = d1 \<and> requested2 = [] \<and>
         requested3 = map (departure_url d0) (departures d0) \<and>
         info d3 = (\<lambda>n. map_option (fetch_departure e3 d0) (latest_departure (departures d0) n)) \<and>
         last_update d3 = Some (utcnow e3) \<and>
         MIN_TIME_BETWEEN_UPDATES = 60 * 1000000"
proof -
  from assms(1,2) have d1: "d1 = d0\<lparr>info := (\<lambda>n. map_option (fetch_departure e1 d0)
                                              (latest_departure (departures d0) n)),
                                 last_update := Some (utcnow e1)\<rparr>"
    and r1: "requested1 = map (departure_url d0) (departures d0)"
    by (simp_all add: MTAData_update_due)
  from d1 assms(5) have nd: "\<not> refresh_due e2 d1"
    by (simp add: refresh_due_def)
  from assms(3) have 2: "d2 = d1" "requested2 = []"
    by (simp_all add: MTAData_update_not_due [OF nd])
  from d1 assms(6) have due: "refresh_due e3 d1"
    by (simp add: refresh_due_def)
  from assms(4) have 3: "d3 = d1\<lparr>info := (\<lambda>n. map_option (fetch_departure e3 d1)
                                              (latest_departure (departures d1) n)),
                                 last_update := Some (utcnow e3)\<rparr>"
    and r3: "requested3 = map (departure_url d1) (departures d1)"
    unfolding 2 by (simp_all add: MTAData_update_due [OF due])
  have dep: "departures d1 = departures d0"
    by (simp add: d1)
  have f: "fetch_departure e3 d1 = fetch_departure e3 d0"
    by (rule ext) (simp add: d1)
  have u: "departure_url d1 = departure_url d0"
    by (rule ext) (simp add: d1)
  show ?thesis
    using r1 2 r3 3 by (simp add: dep f u MIN_TIME_BETWEEN_UPDATES_def)
qed

lemma two_visits_read:
  "read_visits iso_parser (JList [delivery_of two_visits]) =
     Inr ([example_arrival ''June 01, 2024 at 02:05 PM'',
           example_arrival ''June 01, 2024 at 02:20 PM''], Some (example_time 14 20 0))"
  by (simp add: read_visits_def py_index0_def delivery_of_def py_iter_def two_visits_def
      example_visit_normalized)

lemma third_call_fetch:
  "fetch_departure third_call example_data dep =
     [example_arrival ''June 01, 2024 at 02:05 PM'', example_arrival ''June 01, 2024 at 02:20 PM'']"
  by (simp add: fetch_departure_def third_call_def example_env_def ok_response_def
      read_arrivals_def read_delivery_def siri_response_def two_visits_read)

text \<open>The two departures: the first call stores the empty list for "Home"; the second
  call changes nothing; the third requests both URLs and stores the two arrivals.\<close>

theorem refresh_once_per_interval_witness:
  "refresh_due first_call example_data \<and>
   utcnow second_call - utcnow first_call < MIN_TIME_BETWEEN_UPDATES \<and>
   \<not> utcnow third_call - utcnow first_call < MIN_TIME_BETWEEN_UPDATES \<and>
   snd (MTAData_update first_call example_data) @ snd (MTAData_update second_call after_first_call) =
     [departure_url example_data stop_home, departure_url example_data stop_work] \<and>
   info after_first_call ''Home'' = Some [] \<and>
   MTAData_update second_call after_first_call = (after_first_call, []) \<and>
   snd (MTAData_update third_call after_first_call) =
     [departure_url example_data stop_home, departure_url example_data stop_work] \<and>
   info (fst (MTAData_update third_call after_first_call)) ''Home'' =
     Some [example_arrival ''June 01, 2024 at 02:05 PM'',
           example_arrival ''June 01, 2024 at 02:20 PM''] \<and>
   info (fst (MTAData_update third_call after_first_call)) ''Elsewhere'' = None"
proof -
  have h1: "refresh_due first_call example_data"
    by (simp add: refresh_due_def example_data_def)
  have h2: "MTAData_update first_call example_data =
              (after_first_call, snd (MTAData_update first_call example_data))"
    by (simp add: after_first_call_def)
  have h3: "MTAData_update second_call after_first_call =
              (fst (MTAData_update second_call after_first_call),
               snd (MTAData_update second_call after_first_call))"
    by simp
  have h4: "MTAData_update third_call (fst (MTAData_update second_call after_first_call)) =
              (fst (MTAData_update third_call (fst (MTAData_update second_call after_first_call))),
               snd (MTAData_update third_call (fst (MTAData_update second_call after_first_call))))"
    by simp
  have h5: "utcnow second_call - utcnow first_call < MIN_TIME_BETWEEN_UPDATES"
    by (simp add: second_call_def first_call_def example_env_def MIN_TIME_BETWEEN_UPDATES_def)
  have h6: "\<not> utcnow third_call - utcnow first_call < MIN_TIME_BETWEEN_UPDATES"
    by (simp add: third_call_def first_call_def example_env_def MIN_TIME_BETWEEN_UPDATES_def)
  have home: "info after_first_call ''Home'' = Some []"
    unfolding after_first_call_def MTAData_update_due [OF h1]
    by (simp add: multi_defs fetch_departure_def first_call_def example_env_def http_500_def)
  have deps: "departures example_data = [stop_home, stop_work]"
    by (simp add: example_data_def)
  note t = refresh_once_per_interval [OF h1 h2 h3 h4 h5 h6]
  from t have same: "fst (MTAData_update second_call after_first_call) = after_first_call"
    and none: "snd (MTAData_update second_call after_first_call) = []"
    by simp_all
  from same none have second: "MTAData_update second_call after_first_call = (after_first_call, [])"
    by (simp add: prod_eq_iff)
  have urls: "map (departure_url example_data) (departures example_data) =
               [departure_url example_data stop_home, departure_url example_data stop_work]"
    by (simp add: deps)
  from t have "snd (MTAData_update first_call example_data) @
               snd (MTAData_update second_call after_first_call) =
               map (departure_url example_data) (departures example_data)"
    by blast
  then have log: "snd (MTAData_update first_call example_data) @
                    snd (MTAData_update second_call after_first_call) =
                    [departure_url example_data stop_home, departure_url example_data stop_work]"
    by (simp only: urls)
  from t have "snd (MTAData_update third_call (fst (MTAData_update second_call after_first_call))) =
               map (departure_url example_data) (departures example_data)"
    by blast
  then have log3: "snd (MTAData_update third_call after_first_call) =
                    [departure_url example_data stop_home, departure_url example_data stop_work]"
    by (simp only: urls same)
  from t same have i3: "info (fst (MTAData_update third_call after_first_call)) =
      (\<lambda>n. map_option (fetch_departure third_call example_data)
              (latest_departure (departures example_data) n))"
    by simp
  have ld: "latest_departure (departures example_data) ''Home'' = Some stop_home"
    and le: "latest_departure (departures example_data) ''Elsewhere'' = None"
    by (simp_all add: multi_defs)
  have i3h: "info (fst (MTAData_update third_call after_first_call)) ''Home'' =
     Some [example_arrival ''June 01, 2024 at 02:05 PM'',
           example_arrival ''June 01, 2024 at 02:20 PM'']"
    unfolding i3 by (simp only: ld option.map third_call_fetch)
  have i3e: "info (fst (MTAData_update third_call after_first_call)) ''Elsewhere'' = None"
    unfolding i3 by (simp only: le option.map)
  from h1 h5 h6 log home second log3 i3h i3e show ?thesis by blast
qed

section \<open>Decode errors\<close>

text \<open>
  C7, as amended. Both variants catch a decode error (a body that is not JSON, or a
  decoded value whose shape makes the reading raise) and treat it as they treat a failed
  request. In the multi-target fetcher the target gets the empty list, so that after a
  refresh its sensor reads "No arrivals"; there is no "Error" state in that variant. In
  the single-target variant the state becomes "Error" and nothing else changes.
\<close>

theorem decode_error_caught_in_both_variants:
  "(requests_get e (departure_url d dep) = Inr r \<and> status_code r = 200 \<and>
    and_then (json_body r) (read_arrivals e) = Inl ex \<longrightarrow> fetch_departure e d dep = []) \<and>
   (requests_get e (departure_url d dep) = Inl ex \<longrightarrow> fetch_departure e d dep = []) \<and>
   (refresh_due e d \<and> latest_departure (departures d) (dep_name (dep_config ms)) = Some dep \<and>
    fetch_departure e d dep = [] \<longrightarrow>
      info (fst (MTAData_update e d)) (dep_name (dep_config ms)) = Some [] \<and>
      stop_state (fst (snd (MTABusStopSensor_update e d ms))) = JStr ''No arrivals'') \<and>
   (requests_get e (sensor_url s) = Inr r \<and> status_code r = 200 \<and>
    and_then (json_body r) (process_response e) = Inl ex \<longrightarrow>
      update e s = s\<lparr>state := JStr ''Error''\<rparr>) \<and>
   (requests_get e (sensor_url s) = Inl ex \<longrightarrow> update e s = s\<lparr>state := JStr ''Error''\<rparr>)"
proof -
  have a: "requests_get e (departure_url d dep) = Inr r \<Longrightarrow>
    and_then (json_body r) (read_arrivals e) = Inl ex \<Longrightarrow> fetch_departure e d dep = []"
    by (rule fetch_departure_failed(3))
  have b: "requests_get e (departure_url d dep) = Inl ex \<Longrightarrow> fetch_departure e d dep = []"
    by (rule fetch_departure_failed(1))
  have c: "refresh_due e d \<Longrightarrow>
    latest_departure (departures d) (dep_name (dep_config ms)) = Some dep \<Longrightarrow>
    fetch_departure e d dep = [] \<Longrightarrow>
      info (fst (MTAData_update e d)) (dep_name (dep_config ms)) = Some [] \<and>
      stop_state (fst (snd (MTABusStopSensor_update e d ms))) = JStr ''No arrivals''"
    using failed_fetch_no_arrivals [of e d ms dep] by simp
  have f: "requests_get e (sensor_url s) = Inr r \<Longrightarrow> status_code r = 200 \<Longrightarrow>
    and_then (json_body r) (process_response e) = Inl ex \<Longrightarrow>
      update e s = s\<lparr>state := JStr ''Error''\<rparr>"
    by (simp add: update_def)
  have g: "requests_get e (sensor_url s) = Inl ex \<Longrightarrow> update e s = s\<lparr>state := JStr ''Error''\<rparr>"
    by (simp add: update_def)
  from a b c f g show ?thesis by blast
qed

text \<open>A body that is not JSON, a body that is a JSON array, and a failed request.\<close>

theorem decode_error_caught_in_both_variants_witness:
  "fetch_departure (example_env malformed_body 0) example_data stop_home = [] \<and>
   fetch_departure (example_env array_body 0) example_data stop_home = [] \<and>
   fetch_departure (example_env (Inl RequestException) 0) example_data stop_home = [] \<and>
   stop_state (fst (snd (MTABusStopSensor_update (example_env array_body 0) example_data
                           home_sensor))) = JStr ''No arrivals'' \<and>
   update (example_env malformed_body 0) stale_sensor = stale_sensor\<lparr>state := JStr ''Error''\<rparr> \<and>
   update (example_env array_body 0) stale_sensor = stale_sensor\<lparr>state := JStr ''Error''\<rparr> \<and>
   update (example_env (Inl RequestException) 0) stale_sensor =
     stale_sensor\<lparr>state := JStr ''Error''\<rparr>"
proof -
  let ?rm = "\<lparr>status_code = 200, json_body = Inl JSONDecodeError\<rparr>"
  let ?ra = "\<lparr>status_code = 200, json_body = Inr (JList [])\<rparr>"
  note t = decode_error_caught_in_both_variants [where d = example_data and dep = stop_home
      and ms = home_sensor and s = stale_sensor]
  have shape: "read_arrivals e (JList []) = Inl AttributeError"
    "process_response e (JList []) = Inl AttributeError" for e
    by (simp_all add: read_arrivals_def process_response_def read_delivery_def py_get_def)
  have due: "refresh_due e example_data"
    "latest_departure (departures example_data) (dep_name (dep_config home_sensor)) =
       Some stop_home" for e
    by (simp_all add: multi_defs)
  have 1: "fetch_departure (example_env malformed_body 0) example_data stop_home = []"
    and 5: "update (example_env malformed_body 0) stale_sensor =
              stale_sensor\<lparr>state := JStr ''Error''\<rparr>"
    using t [of "example_env malformed_body 0" ?rm JSONDecodeError]
    by (simp_all add: example_env_def malformed_body_def)
  have 2: "fetch_departure (example_env array_body 0) example_data stop_home = []"
    and 6: "update (example_env array_body 0) stale_sensor =
              stale_sensor\<lparr>state := JStr ''Error''\<rparr>"
    using t [of "example_env array_body 0" ?ra AttributeError] shape
    by (simp_all add: example_env_def array_body_def ok_response_def)
  have 3: "fetch_departure (example_env (Inl RequestException) 0) example_data stop_home = []"
    and 7: "update (example_env (Inl RequestException) 0) stale_sensor =
              stale_sensor\<lparr>state := JStr ''Error''\<rparr>"
    using t [of "example_env (Inl RequestException) 0" ?rm RequestException]
    by (simp_all add: example_env_def)
  have 4: "stop_state (fst (snd (MTABusStopSensor_update (example_env array_body 0) example_data
                           home_sensor))) = JStr ''No arrivals''"
    using t [of "example_env array_body 0" ?ra AttributeError] due 2
    by simp
  from 1 2 3 4 5 6 7 show ?thesis by blast
qed

text \<open>The claim as stated fails on a body that is not JSON: the multi-target sensor reads
  "No arrivals" over an empty entry, and the single-target sensor reads "Error" over the
  arrivals of the cycle before.\<close>

theorem decode_error_counterexample:
  "stop_state (fst (snd (MTABusStopSensor_update (example_env malformed_body 0) example_data
                           home_sensor))) = JStr ''No arrivals'' \<and>
   info (fst (MTAData_update (example_env malformed_body 0) example_data)) ''Home'' = Some [] \<and>
   state (update (example_env malformed_body 0) stale_sensor) = JStr ''Error'' \<and>
   attributes (update (example_env malformed_body 0) stale_sensor) =
     [(''Arrivals'', JList [JDict (example_arrival ''June 01, 2024 at 02:05 PM'')]),
      (''ETA in minutes'', JStr ''in 5 minutes'')]"
proof -
  have due: "refresh_due (example_env malformed_body 0) example_data"
    by (simp add: multi_defs)
  have i: "info (fst (MTAData_update (example_env malformed_body 0) example_data)) ''Home'' =
             Some []"
    unfolding MTAData_update_due [OF due]
    by (simp add: multi_defs fetch_departure_def example_env_def malformed_body_def)
  have n: "dep_name (dep_config home_sensor) = ''Home''"
    by (simp add: multi_defs)
  have s: "stop_state (fst (snd (MTABusStopSensor_update (example_env malformed_body 0)
             example_data home_sensor))) = JStr ''No arrivals''"
    unfolding stop_state_update by (rule empty_entry_no_arrivals) (simp only: n i)
  have u: "update (example_env malformed_body 0) stale_sensor =
             stale_sensor\<lparr>state := JStr ''Error''\<rparr>"
    by (simp add: update_def example_env_def malformed_body_def)
  show ?thesis
    using i s by (simp add: u) (simp add: stale_sensor_def)
qed

section \<open>Formatting and reading back\<close>

lemma digit_val_digit_char_all: "\<forall>n<10. digit_val (digit_char n) = Some n"
  by (simp add: eval_nat_numeral All_less_Suc digit_val_def digit_char_def)

lemma digit_val_digit_char: "n < 10 \<Longrightarrow> digit_val (digit_char n) = Some n"
  using digit_val_digit_char_all by blast

lemma parse_digits2_pad2: "n < 100 \<Longrightarrow> parse_digits2 (pad2 n @ rest) = Some (n, rest)"
proof -
  assume n: "n < 100"
  then have a: "n div 10 < 10" and b: "n mod 10 < 10"
    by simp_all
  from a have e: "n div 10 mod 10 = n div 10"
    by simp
  show ?thesis
    by (simp add: parse_digits2_def pad2_def e digit_val_digit_char [OF a]
        digit_val_digit_char [OF b])
qed

lemma parse_digits4_pad2:
  "n < 10000 \<Longrightarrow> parse_digits4 (pad2 (n div 100) @ pad2 (n mod 100) @ rest) = Some (n, rest)"
proof -
  assume n: "n < 10000"
  then have a: "n div 100 < 100" and b: "n mod 100 < 100"
    by simp_all
  show ?thesis
    unfolding parse_digits4_def
    by (simp add: parse_digits2_pad2 [OF a] parse_digits2_pad2 [OF b])
qed

lemma str_nat_four_digits:
  assumes "1000 \<le> n" and "n < 10000"
  shows "str_nat n = pad2 (n div 100) @ pad2 (n mod 100)"
proof -
  have d: "n div 10 div 10 = n div 100" "n div 100 div 10 = n div 1000"
    by (simp_all add: div_mult2_eq [symmetric])
  have m: "n mod 100 div 10 = n div 10 mod 10" "n mod 100 mod 10 = n mod 10"
    by (simp_all add: mod_mult2_eq [of n 10 10, simplified] mod_mod_cancel)
  from assms have k: "n div 1000 < 10" "\<not> n div 100 < 10" "\<not> n div 10 < 10" "\<not> n < 10"
    by simp_all
  have 1: "str_nat n = str_nat (n div 10) @ [digit_char (n mod 10)]"
    using k(4) by (subst str_nat.simps) (simp del: str_nat.simps)
  have 2: "str_nat (n div 10) = str_nat (n div 100) @ [digit_char (n div 10 mod 10)]"
    using k(3) by (subst str_nat.simps) (simp del: str_nat.simps add: d)
  have 3: "str_nat (n div 100) = str_nat (n div 1000) @ [digit_char (n div 100 mod 10)]"
    using k(2) by (subst str_nat.simps) (simp del: str_nat.simps add: d)
  have 4: "str_nat (n div 1000) = [digit_char (n div 1000)]"
    using k(1) by (subst str_nat.simps) (simp del: str_nat.simps)
  from k(1) have 5: "n div 1000 mod 10 = n div 1000"
    by simp
  show ?thesis
    by (simp del: str_nat.simps add: 1 2 3 4 pad2_def d m 5)
qed

lemma parse_month_all:
  "\<forall>k<12. parse_month 1 month_names (month_names ! k @ rest) = Some (Suc k, rest)"
  by (simp add: eval_nat_numeral All_less_Suc month_names_def)

lemma parse_month_name:
  assumes "1 \<le> m" and "m \<le> 12"
  shows "parse_month 1 month_names (month_names ! (m - 1) @ rest) = Some (m, rest)"
proof -
  from assms have "m - 1 < 12" and "Suc (m - 1) = m"
    by simp_all
  with parse_month_all [of rest] show ?thesis
    by metis
qed

lemma hour12_range: "1 \<le> hour12 h \<and> hour12 h \<le> 12"
proof -
  have "h mod 12 < 12" by simp
  then show ?thesis
    by (simp add: hour12_def)
qed

lemma hour24_hour12: "h < 24 \<Longrightarrow> hour24 (hour12 h) (\<not> h < 12) = h"
proof (cases "h < 12")
  case True
  then show ?thesis
    by (auto simp: hour24_def hour12_def)
next
  case False
  assume "h < 24"
  with False have "h mod 12 = h - 12"
    by (simp add: mod_if)
  with False show ?thesis
    by (auto simp: hour24_def hour12_def)
qed

lemma parse_am_pm_am_pm: "parse_am_pm (am_pm h) = Some (\<not> h < 12)"
  by (simp add: parse_am_pm_def am_pm_def)

lemma days_in_month_le: "days_in_month y m \<le> 31"
  by (simp add: days_in_month_def)

lemma strip_prefix_append: "strip_prefix p (p @ rest) = Some rest"
  by (induction p) simp_all

text \<open>
  What does come back: for a valid datetime of a year from 1000 on, the naive datetime of
  the same year, month, day, hour and minute, with seconds and microseconds zero. (The
  year 999 is written "999", which the parser refuses.)
\<close>

lemma strptime_strftime:
  assumes "valid_datetime d" and "1000 \<le> year d"
  shows "strptime (strftime d) = Some (d\<lparr>second := 0, microsecond := 0, tzinfo := None\<rparr>)"
proof -
  from assms(1) have m: "1 \<le> month d" "month d \<le> 12"
    and dd: "1 \<le> day d" "day d \<le> days_in_month (year d) (month d)"
    and y: "1 \<le> year d" "year d < 10000"
    and h: "hour d < 24" and mi: "minute d < 60" "minute d < 100" "minute d \<le> 59"
    by (simp_all add: valid_datetime_def)
  from dd(2) days_in_month_le [of "year d" "month d"] have d100: "day d < 100"
    by linarith
  note hr = hour12_range [of "hour d"]
  from hr have h100: "hour12 (hour d) < 100" by linarith
  have cond: "1 \<le> hour12 (hour d) \<and> hour12 (hour d) \<le> 12 \<and> minute d \<le> 59 \<and> 1 \<le> year d \<and>
              1 \<le> day d \<and> day d \<le> days_in_month (year d) (month d)"
    using hr mi(3) y(1) dd by simp
  have "strptime (strftime d) =
          Some \<lparr>year = year d, month = month d, day = day d, hour = hour d, minute = minute d,
                 second = 0, microsecond = 0, tzinfo = None\<rparr>"
    unfolding strptime_def strftime_def str_nat_four_digits [OF assms(2) y(2)]
    by (simp only: parse_month_name [OF m] parse_digits2_pad2 [OF d100] append_assoc
        parse_digits4_pad2 [OF y(2)] parse_digits2_pad2 [OF h100] parse_digits2_pad2 [OF mi(2)]
        parse_am_pm_am_pm hour24_hour12 [OF h] strip_prefix_append Option.bind.simps prod.case
        cond simp_thms if_True)
  then show ?thesis
    by (cases d) simp
qed

lemma strptime_year_999:
  "strftime ((example_time 14 5 0)\<lparr>year := 999\<rparr>) = ''June 01, 999 at 02:05 PM''"
  "strptime ''June 01, 999 at 02:05 PM'' = None"
  by (simp_all add: format_defs strptime_defs example_time_def)

text \<open>
  C6, at the arrival 2024-06-01T14:05:00-04:00. Formatted and read back it is the naive
  14:05:00: the UTC offset is gone, and the library does not subtract the datetime read
  back from the parsed one. The multi-target sensor takes its countdown to the datetime
  read back, against the local time of the host. On a host in UTC, five minutes before
  the arrival, it reads "Departed", where the countdown to the parsed instant, which the
  single-target variant takes, is "in 5 minutes".
\<close>

theorem reparse_drops_offset:
  "strptime (strftime (example_time 14 5 0)) =
     Some \<lparr>year = 2024, month = 6, day = 1, hour = 14, minute = 5, second = 0,
            microsecond = 0, tzinfo = None\<rparr> \<and>
   example_time 14 5 0 =
     \<lparr>year = 2024, month = 6, day = 1, hour = 14, minute = 5, second = 0,
      microsecond = 0, tzinfo = Some (- 14400)\<rparr> \<and>
   datetime_sub \<lparr>year = 2024, month = 6, day = 1, hour = 14, minute = 5, second = 0,
                 microsecond = 0, tzinfo = None\<rparr> (example_time 14 5 0) = Inl TypeError \<and>
   eta_in_minutes utc_host_clock (Some (example_time 14 5 0)) = Inr ''in 5 minutes'' \<and>
   eta_str utc_host_env [example_arrival (strftime (example_time 14 5 0))] = ''Departed''"
proof -
  have f: "strftime (example_time 14 5 0) = ''June 01, 2024 at 02:05 PM''"
    by (simp add: format_defs example_time_def)
  have p: "strptime ''June 01, 2024 at 02:05 PM'' =
     Some \<lparr>year = 2024, month = 6, day = 1, hour = 14, minute = 5, second = 0,
            microsecond = 0, tzinfo = None\<rparr>"
    by (simp add: strptime_defs)
  have s: "datetime_sub \<lparr>year = 2024, month = 6, day = 1, hour = 14, minute = 5, second = 0,
                 microsecond = 0, tzinfo = None\<rparr> (example_time 14 5 0) = Inl TypeError"
    by (simp add: datetime_sub_def example_time_def Let_def)
  have a: "eta_in_minutes utc_host_clock (Some (example_time 14 5 0)) = Inr ''in 5 minutes''"
    by (simp add: eta_in_minutes_def eta_countdown_eq utc_host_clock_def time_defs)
  have c: "eta_countdown utc_host_clock
             \<lparr>year = 2024, month = 6, day = Suc 0, hour = 14, minute = 5, second = 0,
              microsecond = 0, tzinfo = None\<rparr> = Inr ''Departed''"
    by (simp add: eta_countdown_eq utc_host_clock_def time_defs)
  have b: "eta_str utc_host_env [example_arrival ''June 01, 2024 at 02:05 PM''] = ''Departed''"
    by (simp add: eta_str_Cons example_arrival_def dict_get_def p utc_host_env_def c)
  show ?thesis
    using p s a b by (simp add: f) (simp add: example_time_def)
qed

lemma example_visit_seconds:
  "normalize_visit iso_parser (JDict (example_visit ''2024-06-01T14:00:45-04:00'')) =
     Inr (example_arrival ''June 01, 2024 at 02:00 PM'', Some (example_time 14 0 45))"
  "normalize_visit iso_parser (JDict (example_visit ''2024-06-01T14:01:59-04:00'')) =
     Inr (example_arrival ''June 01, 2024 at 02:01 PM'', Some (example_time 14 1 59))"
  by (simp_all add: normalize_visit_def example_defs parse_time_def iso_parser_def parse_defs
      format_defs example_arrival_def example_time_def)

text \<open>
  C1, on a host in the zone of the feed at 14:00:30. A bus expected at 14:00:45 is 15
  seconds ahead, and the floor of 15 over 60 is 0: the single-target sensor reads "in 0
  minutes", as the claim says. The multi-target sensor reads "Departed", because it takes
  the countdown to the datetime it reads back from the formatted string "June 01, 2024 at
  02:00 PM", which has lost the seconds. A bus expected at 14:01:59 is 89 seconds ahead:
  "in 1 minutes" in the single-target sensor, "in 0 minutes" in the multi-target one.
\<close>

theorem eta_from_formatted_string_drops_seconds:
  "seconds_between (example_time 14 0 45) (datetime_now (clock_at 14 0 30) (Some (- 14400))) = 15 \<and>
   map_of (attributes (update (host_env (one_visit_response ''2024-06-01T14:00:45-04:00'') 14 0 30)
                         example_sensor)) ''ETA in minutes'' = Some (JStr ''in 0 minutes'') \<and>
   map_of (stop_attributes (fst (snd (MTABusStopSensor_update
             (host_env (one_visit_response ''2024-06-01T14:00:45-04:00'') 14 0 30)
             example_data home_sensor)))) ''ETA in minutes'' = Some (JStr ''Departed'') \<and>
   seconds_between (example_time 14 1 59) (datetime_now (clock_at 14 0 30) (Some (- 14400))) = 89 \<and>
   map_of (attributes (update (host_env (one_visit_response ''2024-06-01T14:01:59-04:00'') 14 0 30)
                         example_sensor)) ''ETA in minutes'' = Some (JStr ''in 1 minutes'') \<and>
   map_of (stop_attributes (fst (snd (MTABusStopSensor_update
             (host_env (one_visit_response ''2024-06-01T14:01:59-04:00'') 14 0 30)
             example_data home_sensor)))) ''ETA in minutes'' = Some (JStr ''in 0 minutes'')"
proof -
  let ?now = "datetime_now (clock_at 14 0 30) (Some (- 14400))"
  have s15: "seconds_between (example_time 14 0 45) ?now = 15"
    and s89: "seconds_between (example_time 14 1 59) ?now = 89"
    by (simp_all add: time_defs)
  have single: "map_of (attributes (update (host_env (one_visit_response t) 14 0 30)
                  example_sensor)) ''ETA in minutes'' = Some (JStr eta)"
    if "normalize_visit iso_parser (JDict (example_visit t)) = Inr (a, Some d)"
      and "eta_countdown (clock_at 14 0 30) d = Inr eta" for t a d eta
    using that
    by (simp add: update_def host_env_def one_visit_response_def ok_response_def
        process_response_def read_delivery_def siri_response_def read_visits_def py_index0_def
        delivery_of_def py_iter_def eta_in_minutes_def)
  have fetched: "fetch_departure (host_env (one_visit_response t) 14 0 30) example_data dep = [a]"
    if "normalize_visit iso_parser (JDict (example_visit t)) = Inr (a, dt)" for t a dt dep
    using that
    by (simp add: fetch_departure_def host_env_def one_visit_response_def ok_response_def
        read_arrivals_def read_delivery_def siri_response_def read_visits_def py_index0_def
        delivery_of_def py_iter_def)
  have due: "refresh_due e example_data" for e
    by (simp add: refresh_due_def example_data_def)
  have home: "latest_departure (departures example_data) (dep_name (dep_config home_sensor)) =
                Some stop_home"
    by (simp add: multi_defs)
  have multi: "map_of (stop_attributes (fst (snd (MTABusStopSensor_update
                 (host_env (one_visit_response t) 14 0 30) example_data home_sensor))))
                 ''ETA in minutes'' =
               Some (JStr (eta_str (host_env (one_visit_response t) 14 0 30) [a]))"
    if "normalize_visit iso_parser (JDict (example_visit t)) = Inr (a, dt)" for t a dt
    by (simp add: MTABusStopSensor_update_def MTAData_update_due [OF due]
        extra_state_attributes_def sensor_arrivals_def home fetched [OF that] Let_def)
  have p0: "strptime ''June 01, 2024 at 02:00 PM'' = Some ((example_time 14 0 0)\<lparr>tzinfo := None\<rparr>)"
    and p1: "strptime ''June 01, 2024 at 02:01 PM'' = Some ((example_time 14 1 0)\<lparr>tzinfo := None\<rparr>)"
    by (simp_all add: strptime_defs example_time_def)
  have c45: "eta_countdown (clock_at 14 0 30) (example_time 14 0 45) = Inr ''in 0 minutes''"
    and c159: "eta_countdown (clock_at 14 0 30) (example_time 14 1 59) = Inr ''in 1 minutes''"
    and c0: "eta_countdown (clock_at 14 0 30) ((example_time 14 0 0)\<lparr>tzinfo := None\<rparr>) =
               Inr ''Departed''"
    and c1: "eta_countdown (clock_at 14 0 30) ((example_time 14 (Suc 0) 0)\<lparr>tzinfo := None\<rparr>) =
               Inr ''in 0 minutes''"
    by (simp_all add: eta_countdown_eq time_defs)
  have e0: "eta_str (host_env r 14 0 30) [example_arrival ''June 01, 2024 at 02:00 PM''] =
              ''Departed''"
    and e1: "eta_str (host_env r 14 0 30) [example_arrival ''June 01, 2024 at 02:01 PM''] =
              ''in 0 minutes''" for r
    by (simp_all add: eta_str_Cons example_arrival_def dict_get_def p0 p1 host_env_def c0 c1)
  from s15 s89 single [OF example_visit_seconds(1) c45] single [OF example_visit_seconds(2) c159]
    multi [OF example_visit_seconds(1)] multi [OF example_visit_seconds(2)]
  show ?thesis
    by (simp only: e0 e1 simp_thms)
qed

end
